theory Spec2Isabelle
  imports Main "HOL-Library.Sublist"
begin

section \<open>Api scopes of a java_sdk_library (java/sdk_library.go)\<close>

text \<open>
  The Go source keeps five statically constructed \<^verbatim>\<open>*apiScope\<close> values and uses their
  pointers as map keys.  The pointer identity is the datatype below; every field of the
  struct that the verified functions read is a function on that datatype, with the value
  written in the struct literal of the scope.
\<close>

datatype apiScope =
    apiScopePublic
  | apiScopeSystem
  | apiScopeTest
  | apiScopeModuleLib
  | apiScopeSystemServer

text \<open>
  Modelled from the spec: the declaration of \<^verbatim>\<open>android.SdkKind\<close> lives in package android,
  outside the files at hand.  The constructors are the kinds the consumers of
  sdk_library.go can pass (public, system, test, module-lib, system-server, and the kinds
  without a scope of their own such as none, core and private).
\<close>

datatype SdkKind =
    SdkInvalid
  | SdkNone
  | SdkCore
  | SdkCorePlatform
  | SdkIntraCore
  | SdkPublic
  | SdkSystem
  | SdkTest
  | SdkTestFrameworksCore
  | SdkModule
  | SdkSystemServer
  | SdkPrivate
  | SdkToolchain

fun name :: "apiScope \<Rightarrow> string" where
  "name apiScopePublic = ''public''"
| "name apiScopeSystem = ''system''"
| "name apiScopeTest = ''test''"
| "name apiScopeModuleLib = ''module-lib''"
| "name apiScopeSystemServer = ''system-server''"

fun extends :: "apiScope \<Rightarrow> apiScope option" where
  "extends apiScopePublic = None"
| "extends apiScopeSystem = Some apiScopePublic"
| "extends apiScopeTest = Some apiScopeSystem"
| "extends apiScopeModuleLib = Some apiScopeSystem"
| "extends apiScopeSystemServer = Some apiScopePublic"

text \<open>The \<^verbatim>\<open>canAccess\<close> field as written in the struct literals, before \<^verbatim>\<open>initApiScope\<close>.\<close>

fun declaredCanAccess :: "apiScope \<Rightarrow> apiScope option" where
  "declaredCanAccess apiScopeSystemServer = Some apiScopeModuleLib"
| "declaredCanAccess _ = None"

text \<open>
  \<^verbatim>\<open>initApiScope\<close>: ``By default, a library that can access a scope can also access the
  scope it extends.''
\<close>

definition canAccess :: "apiScope \<Rightarrow> apiScope option" where
  "canAccess scope =
     (if declaredCanAccess scope = None then extends scope else declaredCanAccess scope)"

fun defaultEnabledStatus :: "apiScope \<Rightarrow> bool" where
  "defaultEnabledStatus apiScopePublic = True"
| "defaultEnabledStatus _ = False"

fun apiFilePrefix :: "apiScope \<Rightarrow> string" where
  "apiFilePrefix apiScopePublic = ''''"
| "apiFilePrefix apiScopeSystem = ''system-''"
| "apiFilePrefix apiScopeTest = ''test-''"
| "apiFilePrefix apiScopeModuleLib = ''module-lib-''"
| "apiFilePrefix apiScopeSystemServer = ''system-server-''"

fun unstable :: "apiScope \<Rightarrow> bool" where
  "unstable apiScopeTest = True"
| "unstable _ = False"

fun kind :: "apiScope \<Rightarrow> SdkKind" where
  "kind apiScopePublic = SdkPublic"
| "kind apiScopeSystem = SdkSystem"
| "kind apiScopeTest = SdkTest"
| "kind apiScopeModuleLib = SdkModule"
| "kind apiScopeSystemServer = SdkSystemServer"

definition allApiScopes :: "apiScope list" where
  "allApiScopes =
     [apiScopePublic, apiScopeSystem, apiScopeTest, apiScopeModuleLib, apiScopeSystemServer]"

section \<open>Module contexts and reported errors\<close>

text \<open>
  Modelled from the spec: the module contexts of package android are declared outside the
  files at hand.  \<^verbatim>\<open>ctx.ModuleErrorf(format, args...)\<close> and
  \<^verbatim>\<open>ctx.PropertyErrorf(property, format, args...)\<close> report a fatal configuration error with
  module or property context; they do not abort the calling function, which goes on, and
  graph construction fails for the module once errors have been reported.  A report keeps
  the format string and the arguments of the call.
\<close>

datatype arg =
    ArgString string
  | ArgStrings "string list"
  | ArgScope apiScope

datatype report =
    ModuleError string "arg list"
  | PropertyError string string "arg list"

text \<open>
  Modelled from the spec: the part of the android contexts (declared outside the files at
  hand) that the verified functions read or write: the reported errors, the recorded
  missing dependencies, the directory of the module, the files that exist in the checked-in
  source tree (\<^verbatim>\<open>android.ExistentPathForSource\<close>), the modules that exist
  (\<^verbatim>\<open>ctx.OtherModuleExists\<close>) and two global switches of \<^verbatim>\<open>ctx.Config()\<close>: the tolerance
  of missing dependencies and the release flag of the exportable stubs.
\<close>

record moduleContext =
  errors :: "report list"
  missingDependencies :: "string list"
  ModuleDir :: string
  sourceFiles :: "string list"
  otherModules :: "string list"
  AllowMissingDependencies :: bool
  ReleaseHiddenApiExportableStubs :: bool

definition ModuleErrorf :: "moduleContext \<Rightarrow> string \<Rightarrow> arg list \<Rightarrow> moduleContext" where
  "ModuleErrorf ctx format args = ctx\<lparr>errors := errors ctx @ [ModuleError format args]\<rparr>"

definition PropertyErrorf :: "moduleContext \<Rightarrow> string \<Rightarrow> string \<Rightarrow> arg list \<Rightarrow> moduleContext" where
  "PropertyErrorf ctx property format args =
     ctx\<lparr>errors := errors ctx @ [PropertyError property format args]\<rparr>"

definition AddMissingDependencies :: "moduleContext \<Rightarrow> string list \<Rightarrow> moduleContext" where
  "AddMissingDependencies ctx deps = ctx\<lparr>missingDependencies := missingDependencies ctx @ deps\<rparr>"

definition ExistentPathForSource :: "moduleContext \<Rightarrow> string \<Rightarrow> string option" where
  "ExistentPathForSource ctx p = (if p \<in> set (sourceFiles ctx) then Some p else None)"

definition OtherModuleExists :: "moduleContext \<Rightarrow> string \<Rightarrow> bool" where
  "OtherModuleExists ctx m = (m \<in> set (otherModules ctx))"

section \<open>Scope paths and scope selection\<close>

text \<open>
  Modelled from the spec: \<^verbatim>\<open>android.Paths\<close>, \<^verbatim>\<open>android.OptionalPath\<close> and
  \<^verbatim>\<open>OptionalDexJarPath\<close> are declared outside the files at hand.  A path is its string, a
  field is either unset or holds one resolved path; \<open>None\<close> and \<open>[]\<close> are the zero values.
\<close>

type_synonym Paths = "string list"
type_synonym OptionalPath = "string option"
type_synonym OptionalDexJarPath = "string option"

record scopePaths =
  stubsHeaderPath :: Paths
  stubsImplPath :: Paths
  stubsDexJarPath :: OptionalDexJarPath
  exportableStubsDexJarPath :: OptionalDexJarPath
  currentApiFilePath :: OptionalPath
  removedApiFilePath :: OptionalPath
  stubsSrcJar :: OptionalPath
  annotationsZip :: OptionalPath
  latestApiPath :: OptionalPath
  latestRemovedApiPath :: OptionalPath

text \<open>
  \<^verbatim>\<open>commonToSdkLibraryAndImport\<close>: the map from scope to paths (\<open>None\<close> is the nil map) and
  the name that \<^verbatim>\<open>c.module.RootLibraryName()\<close> returns.
\<close>

record commonToSdkLibraryAndImport =
  scopePathsMap :: "(apiScope \<rightharpoonup> scopePaths) option"
  RootLibraryName :: string

definition findScopePaths :: "commonToSdkLibraryAndImport \<Rightarrow> apiScope \<Rightarrow> scopePaths option" where
  "findScopePaths c scope =
     (case scopePathsMap c of None \<Rightarrow> None | Some m \<Rightarrow> m scope)"

text \<open>
  The loop \<^verbatim>\<open>for s := scope; s != nil; s = s.canAccess\<close> of \<^verbatim>\<open>findClosestScopePath\<close>.  Every
  \<^verbatim>\<open>canAccess\<close> link leads to a scope declared earlier, which is why the loop ends.
\<close>

fun scopeRank :: "apiScope \<Rightarrow> nat" where
  "scopeRank apiScopePublic = 0"
| "scopeRank apiScopeSystem = 1"
| "scopeRank apiScopeTest = 2"
| "scopeRank apiScopeModuleLib = 2"
| "scopeRank apiScopeSystemServer = 3"

function findClosestScopePath :: "commonToSdkLibraryAndImport \<Rightarrow> apiScope \<Rightarrow> scopePaths option" where
  "findClosestScopePath c s =
     (case findScopePaths c s of
        Some paths \<Rightarrow> Some paths
      | None \<Rightarrow> (case canAccess s of None \<Rightarrow> None | Some t \<Rightarrow> findClosestScopePath c t))"
  by pat_completeness auto
termination
proof (relation "measure (\<lambda>(c, s). scopeRank s)")
  show "wf (measure (\<lambda>(c, s). scopeRank s))"
    by simp
next
  fix c :: commonToSdkLibraryAndImport and s t :: apiScope
  assume "canAccess s = Some t"
  then have "scopeRank t < scopeRank s"
    by (cases s) (auto simp: canAccess_def)
  then show "((c, t), (c, s)) \<in> measure (\<lambda>(c, s). scopeRank s)"
    by simp
qed

declare findClosestScopePath.simps [simp del]

fun sdkKindToApiScope :: "SdkKind \<Rightarrow> apiScope" where
  "sdkKindToApiScope SdkSystem = apiScopeSystem"
| "sdkKindToApiScope SdkModule = apiScopeModuleLib"
| "sdkKindToApiScope SdkTest = apiScopeTest"
| "sdkKindToApiScope SdkSystemServer = apiScopeSystemServer"
| "sdkKindToApiScope _ = apiScopePublic"

text \<open>
  The loop of \<^verbatim>\<open>selectScopePaths\<close> that collects the names of the scopes the library has
  paths for, in the order of \<^verbatim>\<open>allApiScopes\<close>.
\<close>

fun availableScopes :: "commonToSdkLibraryAndImport \<Rightarrow> apiScope list \<Rightarrow> string list" where
  "availableScopes c [] = []"
| "availableScopes c (s # ss) =
     (if findScopePaths c s \<noteq> None then name s # availableScopes c ss
      else availableScopes c ss)"

definition selectScopePaths ::
  "commonToSdkLibraryAndImport \<Rightarrow> moduleContext \<Rightarrow> SdkKind \<Rightarrow> scopePaths option \<times> moduleContext" where
  "selectScopePaths c ctx knd =
     (let apiScope = sdkKindToApiScope knd in
      case findClosestScopePath c apiScope of
        None \<Rightarrow>
          (None,
           ModuleErrorf ctx ''requires api scope %s from %s but it only has %q available''
             [ArgString (name apiScope), ArgString (RootLibraryName c),
              ArgStrings (availableScopes c allApiScopes)])
      | Some paths \<Rightarrow> (Some paths, ctx))"

text \<open>
  The chain of scopes that the selection walks, in the words of the specification:
  the requested scope, then its \<^verbatim>\<open>canAccess\<close>, then that scope's \<^verbatim>\<open>canAccess\<close>, until
  there is no further link.
\<close>

function accessChain :: "apiScope \<Rightarrow> apiScope list" where
  "accessChain s = s # (case canAccess s of None \<Rightarrow> [] | Some t \<Rightarrow> accessChain t)"
  by pat_completeness auto
termination
proof (relation "measure scopeRank")
  show "wf (measure scopeRank)"
    by simp
next
  fix s t :: apiScope
  assume "canAccess s = Some t"
  then have "scopeRank t < scopeRank s"
    by (cases s) (auto simp: canAccess_def)
  then show "(t, s) \<in> measure scopeRank"
    by simp
qed

declare accessChain.simps [simp del]

definition firstProvided :: "commonToSdkLibraryAndImport \<Rightarrow> apiScope list \<Rightarrow> scopePaths option" where
  "firstProvided c chain =
     (case List.find (\<lambda>t. findScopePaths c t \<noteq> None) chain of
        None \<Rightarrow> None
      | Some t \<Rightarrow> findScopePaths c t)"

section \<open>The properties of a java_sdk_library and the generated scopes\<close>

text \<open>\<^verbatim>\<open>proptools.BoolDefault\<close>, \<^verbatim>\<open>proptools.Bool\<close> and \<^verbatim>\<open>proptools.StringDefault\<close> on optional properties.\<close>

definition BoolDefault :: "bool option \<Rightarrow> bool \<Rightarrow> bool" where
  "BoolDefault b def = (case b of None \<Rightarrow> def | Some v \<Rightarrow> v)"

definition Bool :: "bool option \<Rightarrow> bool" where
  "Bool b = BoolDefault b False"

definition StringDefault :: "string option \<Rightarrow> string \<Rightarrow> string" where
  "StringDefault s def = (case s of None \<Rightarrow> def | Some v \<Rightarrow> v)"

record ApiScopeProperties =
  Enabled :: "bool option"
  Sdk_version :: "string option"
  Libs :: "string list"

record sdkLibraryProperties =
  Api_dir :: "string option"
  Api_only :: "bool option"
  Dist_stem :: "string option"
  Unsafe_ignore_missing_latest_api :: bool
  Generate_system_and_test_apis :: bool
  Public :: ApiScopeProperties
  System :: ApiScopeProperties
  Test :: ApiScopeProperties
  Module_lib :: ApiScopeProperties
  System_server :: ApiScopeProperties

text \<open>
  \<^verbatim>\<open>SdkLibrary\<close>: its sdk library properties and what the embedded \<^verbatim>\<open>Library\<close> answers to
  \<^verbatim>\<open>Enabled()\<close>, \<^verbatim>\<open>properties.Srcs\<close>, \<^verbatim>\<open>Name()\<close>, \<^verbatim>\<open>BaseModuleName()\<close> and
  \<^verbatim>\<open>decodeSdkDep(...).hasStandardLibs()\<close>.
\<close>

record SdkLibrary =
  libraryProperties :: sdkLibraryProperties
  moduleEnabled :: bool
  Srcs :: "string list"
  Name :: string
  BaseModuleName :: string
  hasStandardLibs :: bool

definition generateTestAndSystemScopesByDefault :: "SdkLibrary \<Rightarrow> bool" where
  "generateTestAndSystemScopesByDefault module =
     Generate_system_and_test_apis (libraryProperties module)"

fun legacyEnabledStatus :: "apiScope \<Rightarrow> SdkLibrary \<Rightarrow> bool" where
  "legacyEnabledStatus apiScopePublic module = True"
| "legacyEnabledStatus apiScopeSystem module = generateTestAndSystemScopesByDefault module"
| "legacyEnabledStatus apiScopeTest module = generateTestAndSystemScopesByDefault module"
| "legacyEnabledStatus apiScopeModuleLib module = False"
| "legacyEnabledStatus apiScopeSystemServer module = False"

fun scopeSpecificProperties :: "apiScope \<Rightarrow> SdkLibrary \<Rightarrow> ApiScopeProperties" where
  "scopeSpecificProperties apiScopePublic module = Public (libraryProperties module)"
| "scopeSpecificProperties apiScopeSystem module = System (libraryProperties module)"
| "scopeSpecificProperties apiScopeTest module = Test (libraryProperties module)"
| "scopeSpecificProperties apiScopeModuleLib module = Module_lib (libraryProperties module)"
| "scopeSpecificProperties apiScopeSystemServer module = System_server (libraryProperties module)"

text \<open>
  \<^verbatim>\<open>SdkLibraryFactory\<close> fills \<^verbatim>\<open>scopeToProperties\<close> with
  \<^verbatim>\<open>scope.scopeSpecificProperties(module)\<close> for every scope of \<^verbatim>\<open>allApiScopes\<close>.
\<close>

definition scopeToProperties :: "SdkLibrary \<Rightarrow> apiScope \<Rightarrow> ApiScopeProperties" where
  "scopeToProperties module scope = scopeSpecificProperties scope module"

text \<open>First loop of \<^verbatim>\<open>getGeneratedApiScopes\<close>: is any scope explicitly enabled or disabled?\<close>

fun anyScopesExplicitlyEnabled :: "SdkLibrary \<Rightarrow> apiScope list \<Rightarrow> bool" where
  "anyScopesExplicitlyEnabled module [] = False"
| "anyScopesExplicitlyEnabled module (scope # scopes) =
     (if Enabled (scopeToProperties module scope) \<noteq> None then True
      else anyScopesExplicitlyEnabled module scopes)"

definition scopeEnabled :: "SdkLibrary \<Rightarrow> bool \<Rightarrow> apiScope \<Rightarrow> bool" where
  "scopeEnabled module anyExplicit scope =
     (let defaultStatus =
            (if anyExplicit then defaultEnabledStatus scope
             else legacyEnabledStatus scope module)
      in BoolDefault (Enabled (scopeToProperties module scope)) defaultStatus)"

text \<open>Second loop: the enabled scopes, in the order of \<^verbatim>\<open>allApiScopes\<close>.\<close>

fun generatedScopesLoop :: "SdkLibrary \<Rightarrow> bool \<Rightarrow> apiScope list \<Rightarrow> apiScope list" where
  "generatedScopesLoop module anyExplicit [] = []"
| "generatedScopesLoop module anyExplicit (scope # scopes) =
     (if scopeEnabled module anyExplicit scope
      then scope # generatedScopesLoop module anyExplicit scopes
      else generatedScopesLoop module anyExplicit scopes)"

text \<open>Third loop: every enabled scope that extends a disabled scope is reported.\<close>

fun checkExtendsLoop :: "apiScope list \<Rightarrow> apiScope list \<Rightarrow> moduleContext \<Rightarrow> moduleContext" where
  "checkExtendsLoop enabledScopes [] ctx = ctx"
| "checkExtendsLoop enabledScopes (scope # scopes) ctx =
     checkExtendsLoop enabledScopes scopes
       (if scope \<in> set enabledScopes then
          (case extends scope of
             None \<Rightarrow> ctx
           | Some ext \<Rightarrow>
               (if ext \<notin> set enabledScopes
                then ModuleErrorf ctx ''enabled api scope %q depends on disabled scope %q''
                       [ArgScope scope, ArgScope ext]
                else ctx))
        else ctx)"

definition getGeneratedApiScopes :: "SdkLibrary \<Rightarrow> moduleContext \<Rightarrow> apiScope list \<times> moduleContext" where
  "getGeneratedApiScopes module ctx =
     (let anyExplicit = anyScopesExplicitlyEnabled module allApiScopes;
          generatedScopes = generatedScopesLoop module anyExplicit allApiScopes
      in (generatedScopes, checkExtendsLoop generatedScopes allApiScopes ctx))"

section \<open>Extracting the paths of the stubs libraries\<close>

datatype panic = Panic string

text \<open>
  A dependency as the extractors see it: the \<^verbatim>\<open>JavaInfoProvider\<close> it may have, and what
  \<^verbatim>\<open>DexJarBuildPath\<close> returns when it implements \<^verbatim>\<open>UsesLibraryDependency\<close> (the type
  assertion \<^verbatim>\<open>dep.(UsesLibraryDependency)\<close> panics when it does not).
\<close>

record JavaInfo =
  HeaderJars :: Paths
  ImplementationJars :: Paths

record dependency =
  javaInfo :: "JavaInfo option"
  DexJarBuildPath :: "OptionalDexJarPath option"

definition extractEverythingStubsLibraryInfoFromDependency ::
  "scopePaths \<Rightarrow> moduleContext \<Rightarrow> dependency \<Rightarrow> panic + scopePaths \<times> string option" where
  "extractEverythingStubsLibraryInfoFromDependency paths ctx dep =
     (case javaInfo dep of
        Some lib \<Rightarrow>
          (let paths1 = paths\<lparr>stubsHeaderPath := HeaderJars lib\<rparr>;
               paths2 = (if \<not> ReleaseHiddenApiExportableStubs ctx
                         then paths1\<lparr>stubsImplPath := ImplementationJars lib\<rparr>
                         else paths1)
           in case DexJarBuildPath dep of
                None \<Rightarrow> Inl (Panic ''interface conversion: not a UsesLibraryDependency'')
              | Some dexJar \<Rightarrow> Inr (paths2\<lparr>stubsDexJarPath := dexJar\<rparr>, None))
      | None \<Rightarrow>
          Inr (paths, Some ''expected module that has JavaInfoProvider, e.g. java_library''))"

definition extractExportableStubsLibraryInfoFromDependency ::
  "scopePaths \<Rightarrow> moduleContext \<Rightarrow> dependency \<Rightarrow> panic + scopePaths \<times> string option" where
  "extractExportableStubsLibraryInfoFromDependency paths ctx dep =
     (case javaInfo dep of
        Some lib \<Rightarrow>
          (let paths1 = (if ReleaseHiddenApiExportableStubs ctx
                         then paths\<lparr>stubsImplPath := ImplementationJars lib\<rparr>
                         else paths)
           in case DexJarBuildPath dep of
                None \<Rightarrow> Inl (Panic ''interface conversion: not a UsesLibraryDependency'')
              | Some dexJar \<Rightarrow> Inr (paths1\<lparr>exportableStubsDexJarPath := dexJar\<rparr>, None))
      | None \<Rightarrow>
          Inr (paths, Some ''expected module that has JavaInfoProvider, e.g. java_library''))"

section \<open>Strings and paths of the Go library\<close>

text \<open>\<^verbatim>\<open>strings.Join(elems, sep)\<close>.\<close>

fun strings_Join :: "string list \<Rightarrow> string \<Rightarrow> string" where
  "strings_Join [] sep = ''''"
| "strings_Join [e] sep = e"
| "strings_Join (e # es) sep = e @ sep @ strings_Join es sep"

fun splitOn :: "char \<Rightarrow> string \<Rightarrow> string list" where
  "splitOn c [] = [[]]"
| "splitOn c (x # xs) =
     (if x = c then [] # splitOn c xs
      else (case splitOn c xs of [] \<Rightarrow> [[x]] | w # ws \<Rightarrow> (x # w) # ws))"

text \<open>
  \<^verbatim>\<open>path.Clean\<close> on the elements between slashes: empty elements and \<^verbatim>\<open>.\<close> are dropped,
  \<^verbatim>\<open>..\<close> removes the element before it, is dropped at the root and is kept at the start
  of a relative path.
\<close>

fun cleanLoop :: "bool \<Rightarrow> string list \<Rightarrow> string list \<Rightarrow> string list" where
  "cleanLoop rooted out [] = out"
| "cleanLoop rooted out (e # es) =
     (if e = '''' \<or> e = ''.'' then cleanLoop rooted out es
      else if e = ''..'' then
        (if out \<noteq> [] \<and> last out \<noteq> ''..'' then cleanLoop rooted (butlast out) es
         else if rooted then cleanLoop rooted out es
         else cleanLoop rooted (out @ [''..'']) es)
      else cleanLoop rooted (out @ [e]) es)"

definition Clean :: "string \<Rightarrow> string" where
  "Clean p =
     (case p of
        [] \<Rightarrow> ''.''
      | c # cs \<Rightarrow>
          (let rooted = (c = CHR ''/'');
               out = cleanLoop rooted [] (splitOn (CHR ''/'') p);
               r = (if rooted then ''/'' else '''') @ strings_Join out ''/''
           in if r = '''' then ''.'' else r))"

text \<open>\<^verbatim>\<open>path.Join\<close> and, on Linux hosts, \<^verbatim>\<open>filepath.Join\<close>.\<close>

definition path_Join :: "string list \<Rightarrow> string" where
  "path_Join elem =
     (let nonEmpty = filter (\<lambda>e. e \<noteq> '''') elem
      in if nonEmpty = [] then '''' else Clean (strings_Join nonEmpty ''/''))"

section \<open>Creating the internal modules: the checked-in api files\<close>

definition getApiDir :: "SdkLibrary \<Rightarrow> string" where
  "getApiDir module = StringDefault (Api_dir (libraryProperties module)) ''api''"

text \<open>
  The inner loop of \<^verbatim>\<open>CreateInternalModules\<close> over \<^verbatim>\<open>current.txt\<close> and \<^verbatim>\<open>removed.txt\<close>; the
  state is \<^verbatim>\<open>missingCurrentApi\<close> and the context.
\<close>

fun apiFilesLoop ::
  "string \<Rightarrow> apiScope \<Rightarrow> string list \<Rightarrow> bool \<times> moduleContext \<Rightarrow> bool \<times> moduleContext" where
  "apiFilesLoop apiDir scope [] st = st"
| "apiFilesLoop apiDir scope (api # apis) (missingCurrentApi, mctx) =
     (let path = path_Join [ModuleDir mctx, apiDir, apiFilePrefix scope @ api]
      in apiFilesLoop apiDir scope apis
           (case ExistentPathForSource mctx path of
              Some p \<Rightarrow> (missingCurrentApi, mctx)
            | None \<Rightarrow>
                (if AllowMissingDependencies mctx
                 then (missingCurrentApi, AddMissingDependencies mctx [path])
                 else (True,
                       ModuleErrorf mctx (''Current api file %#v doesn'' @ [CHR 0x27] @ ''t exist'')
                         [ArgString path]))))"

fun scopesApiFilesLoop ::
  "string \<Rightarrow> apiScope list \<Rightarrow> bool \<times> moduleContext \<Rightarrow> bool \<times> moduleContext" where
  "scopesApiFilesLoop apiDir [] st = st"
| "scopesApiFilesLoop apiDir (scope # scopes) st =
     scopesApiFilesLoop apiDir scopes
       (apiFilesLoop apiDir scope [''current.txt'', ''removed.txt''] st)"

definition genApiFilesScript :: string where
  "genApiFilesScript = ''build/soong/scripts/gen-java-current-api-files.sh''"

definition missingApiFilesFormat :: string where
  "missingApiFilesFormat =
     ''One or more current api files are missing. You can update them by:'' @ [CHR 0x0A] @
     ''%s %q %s && m update-api''"

text \<open>
  \<^verbatim>\<open>CreateInternalModules\<close> up to the point where the child modules are created.  The
  result says whether the function goes on to create the child modules of the generated
  scopes (\<open>CreatesChildModules\<close>) or returns before creating any (\<open>NoChildModules\<close>); the
  creation itself is not modelled.
\<close>

datatype creation = NoChildModules | CreatesChildModules "apiScope list"

definition CreateInternalModules ::
  "SdkLibrary \<Rightarrow> moduleContext \<Rightarrow> panic + creation \<times> SdkLibrary \<times> moduleContext" where
  "CreateInternalModules module mctx =
     (if \<not> moduleEnabled module then Inr (NoChildModules, module, mctx)
      else if length (Srcs module) = 0 then
        Inr (NoChildModules, module,
             PropertyErrorf mctx ''srcs'' ''java_sdk_library must specify srcs'' [])
      else
        (let module1 = module\<lparr>libraryProperties :=
                         (libraryProperties module)
                           \<lparr>Generate_system_and_test_apis := hasStandardLibs module\<rparr>\<rparr>;
             (generatedScopes, mctx1) = getGeneratedApiScopes module1 mctx;
             apiDir = getApiDir module1;
             (missingCurrentApi, mctx2) = scopesApiFilesLoop apiDir generatedScopes (False, mctx1)
         in if missingCurrentApi then
              (case ExistentPathForSource mctx2 genApiFilesScript of
                 None \<Rightarrow>
                   Inl (Panic (''script file '' @ genApiFilesScript @ '' doesn'' @ [CHR 0x27] @
                               ''t exist''))
               | Some p \<Rightarrow>
                   Inr (NoChildModules, module1,
                        ModuleErrorf mctx2 missingApiFilesFormat
                          [ArgString genApiFilesScript,
                           ArgString (path_Join [ModuleDir mctx2, apiDir]),
                           ArgString (strings_Join (map apiFilePrefix generatedScopes) '' '')]))
            else Inr (CreatesChildModules generatedScopes, module1, mctx2)))"

section \<open>The latest released api modules (DepsMutator)\<close>

definition distStem :: "SdkLibrary \<Rightarrow> string" where
  "distStem module = StringDefault (Dist_stem (libraryProperties module)) (BaseModuleName module)"

text \<open>
  Modelled from the spec: \<^verbatim>\<open>PrebuiltApiModuleName\<close> is defined in another file of the
  package, which is not at hand; the names it builds are the ones that the documentation
  of the \<^verbatim>\<open>dist_stem\<close> property lists: \<^verbatim>\<open><dist-stem>.api.<scope>.latest\<close>.
\<close>

definition PrebuiltApiModuleName :: "string \<Rightarrow> string \<Rightarrow> string \<Rightarrow> string" where
  "PrebuiltApiModuleName module scope version = module @ ''.api.'' @ scope @ ''.'' @ version"

definition latestPrebuiltApiModuleName :: "string \<Rightarrow> apiScope \<Rightarrow> string" where
  "latestPrebuiltApiModuleName nm apiScope = PrebuiltApiModuleName nm (name apiScope) ''latest''"

definition latestApiModuleName :: "SdkLibrary \<Rightarrow> apiScope \<Rightarrow> string" where
  "latestApiModuleName module apiScope = latestPrebuiltApiModuleName (distStem module) apiScope"

definition latestRemovedApiModuleName :: "SdkLibrary \<Rightarrow> apiScope \<Rightarrow> string" where
  "latestRemovedApiModuleName module apiScope =
     latestPrebuiltApiModuleName (distStem module @ ''-removed'') apiScope"

definition latestIncompatibilitiesModuleName :: "SdkLibrary \<Rightarrow> apiScope \<Rightarrow> string" where
  "latestIncompatibilitiesModuleName module apiScope =
     latestPrebuiltApiModuleName (distStem module @ ''-incompatibilities'') apiScope"

definition missingIfAbsent :: "moduleContext \<Rightarrow> string \<Rightarrow> string list" where
  "missingIfAbsent ctx m = (if \<not> OtherModuleExists ctx m then [m] else [])"

fun missingApiModulesLoop :: "SdkLibrary \<Rightarrow> moduleContext \<Rightarrow> apiScope list \<Rightarrow> string list" where
  "missingApiModulesLoop module ctx [] = []"
| "missingApiModulesLoop module ctx (apiScope # scopes) =
     (if unstable apiScope then missingApiModulesLoop module ctx scopes
      else missingIfAbsent ctx (latestApiModuleName module apiScope) @
           missingIfAbsent ctx (latestRemovedApiModuleName module apiScope) @
           missingIfAbsent ctx (latestIncompatibilitiesModuleName module apiScope) @
           missingApiModulesLoop module ctx scopes)"

definition missingTrackingFilesMessage :: "SdkLibrary \<Rightarrow> string list \<Rightarrow> string" where
  "missingTrackingFilesMessage module missingApiModules =
     Name module @ '' is missing tracking files for previously released library versions.'' @
       [CHR 0x0A] @
     ''You need to do one of the following:'' @ [CHR 0x0A] @
     ''- Add `unsafe_ignore_missing_latest_api: true` to your blueprint (to disable compat tracking)'' @
       [CHR 0x0A] @
     ''- Add a set of prebuilt txt files representing the last released version of this library for compat checking.'' @
       [CHR 0x0A] @
     ''  (the current set of API files can be used as a seed for this compatibility tracking'' @
       [CHR 0x0A] @
     [CHR 0x0A] @
     ''The following filegroup modules are missing:'' @ [CHR 0x0A] @ ''  '' @
     strings_Join missingApiModules ([CHR 0x0A] @ ''  '') @ [CHR 0x0A] @
     ''Please see the documentation of the prebuilt_apis module type (and a usage example in prebuilts/sdk) for a convenient way to generate these.''"

text \<open>
  \<^verbatim>\<open>DepsMutator\<close> up to the report of the missing modules; the dependencies that
  \<^verbatim>\<open>module.Library.deps\<close> adds afterwards are not modelled.
\<close>

definition DepsMutator :: "SdkLibrary \<Rightarrow> moduleContext \<Rightarrow> moduleContext" where
  "DepsMutator module ctx =
     (let (generatedScopes, ctx1) = getGeneratedApiScopes module ctx;
          missingApiModules = missingApiModulesLoop module ctx1 generatedScopes
      in if length missingApiModules \<noteq> 0 \<and>
            \<not> Unsafe_ignore_missing_latest_api (libraryProperties module)
         then ModuleErrorf ctx1 (missingTrackingFilesMessage module missingApiModules) []
         else ctx1)"

section \<open>What package android provides\<close>

text \<open>
  Modelled from the spec: \<^verbatim>\<open>android.ApiLevel\<close>, \<^verbatim>\<open>android.SdkSpec\<close> and their methods are
  declared in package android, outside the files at hand.  The api level is a type parameter and the
  operations that sdk_library.go calls are the fields of a record that every function
  below takes as its first argument: \<^verbatim>\<open>ApiLevelFromUser\<close> (an error message or a level),
  \<^verbatim>\<open>ApiLevelOrPanic\<close>, the comparisons, \<^verbatim>\<open>IsCurrent\<close>, \<^verbatim>\<open>IsPreview\<close>, \<^verbatim>\<open>String\<close> on levels
  and on kinds, \<^verbatim>\<open>FutureApiLevel\<close>, and \<^verbatim>\<open>SdkSpec.UsePrebuilt\<close>.
\<close>

record 'l SdkSpec =
  Kind :: SdkKind
  ApiLevel :: 'l
  Raw :: string

record 'l android =
  ApiLevelFromUser :: "string \<Rightarrow> string + 'l"
  ApiLevelOrPanic :: "string \<Rightarrow> panic + 'l"
  GreaterThan :: "'l \<Rightarrow> 'l \<Rightarrow> bool"
  LessThan :: "'l \<Rightarrow> 'l \<Rightarrow> bool"
  IsCurrent :: "'l \<Rightarrow> bool"
  IsPreview :: "'l \<Rightarrow> bool"
  ApiLevel_String :: "'l \<Rightarrow> string"
  FutureApiLevel :: 'l
  SdkKind_String :: "SdkKind \<Rightarrow> string"
  UsePrebuilt :: "'l SdkSpec \<Rightarrow> bool"

section \<open>Header jars for a requested sdk version\<close>

definition PrebuiltJars ::
  "'l android \<Rightarrow> moduleContext \<Rightarrow> string \<Rightarrow> 'l SdkSpec \<Rightarrow> Paths \<times> moduleContext" where
  "PrebuiltJars A ctx baseName s =
     (let (ver, knd) = (if UsePrebuilt A s then (ApiLevel s, Kind s)
                        else (FutureApiLevel A, SdkSystem));
          dir = path_Join [''prebuilts'', ''sdk'', ApiLevel_String A ver, SdkKind_String A knd];
          jar = path_Join [dir, baseName @ ''.jar'']
      in case ExistentPathForSource ctx jar of
           None \<Rightarrow>
             (if AllowMissingDependencies ctx then ([jar], ctx)
              else ([], PropertyErrorf ctx ''sdk_library''
                          ''invalid sdk version %q, %q does not exist''
                          [ArgString (Raw s), ArgString jar]))
         | Some jarPath \<Rightarrow> ([jarPath], ctx))"

definition selectHeaderJarsForSdkVersion ::
  "'l android \<Rightarrow> commonToSdkLibraryAndImport \<Rightarrow> moduleContext \<Rightarrow> 'l SdkSpec \<Rightarrow>
   Paths \<times> moduleContext" where
  "selectHeaderJarsForSdkVersion A c ctx sdkVersion =
     (if \<not> IsPreview A (ApiLevel sdkVersion)
      then PrebuiltJars A ctx (RootLibraryName c) sdkVersion
      else (case selectScopePaths c ctx (Kind sdkVersion) of
              (None, ctx1) \<Rightarrow> ([], ctx1)
            | (Some paths, ctx1) \<Rightarrow> (stubsHeaderPath paths, ctx1)))"

section \<open>The permissions xml of a shared library\<close>

record sdkLibraryXmlProperties =
  Lib_name :: "string option"
  On_bootclasspath_since :: "string option"
  On_bootclasspath_before :: "string option"
  Min_device_sdk :: "string option"
  Max_device_sdk :: "string option"
  Sdk_library_min_api_level :: "string option"
  Uses_libs_dependencies :: "string list option"

text \<open>
  \<^verbatim>\<open>sdkLibraryXml\<close>: its properties, the apex info of the variant and the partition
  predicates of the module base that \<^verbatim>\<open>implPath\<close> reads.
\<close>

record sdkLibraryXml =
  properties :: sdkLibraryXmlProperties
  IsForPlatform :: bool
  ApexVariationName :: string
  SocSpecific :: bool
  DeviceSpecific :: bool
  ProductSpecific :: bool
  SystemExtSpecific :: bool

definition String :: "string option \<Rightarrow> string" where
  "String s = StringDefault s ''''"

definition implPath :: "sdkLibraryXml \<Rightarrow> string" where
  "implPath module =
     (let implName = String (Lib_name (properties module))
      in if \<not> IsForPlatform module
         then ''/apex/'' @ ApexVariationName module @ ''/javalib/'' @ implName @ ''.jar''
         else
           (let partition =
                  (if SocSpecific module then ''vendor''
                   else if DeviceSpecific module then ''odm''
                   else if ProductSpecific module then ''product''
                   else if SystemExtSpecific module then ''system_ext''
                   else ''system'')
            in ''/'' @ partition @ ''/framework/'' @ implName @ ''.jar''))"

text \<open>
  The formats of the xml are raw Go strings: \<^verbatim>\<open>\n\<close> and \<^verbatim>\<open>\"\<close> in them are a backslash
  followed by a letter or a quote, which \<^verbatim>\<open>echo -e\<close> and the shell interpret later.
\<close>

definition bsn :: string where
  "bsn = [CHR 0x5C, CHR ''n'']"

definition bsq :: string where
  "bsq = [CHR 0x5C, CHR 0x22]"

definition formattedOptionalAttribute :: "string \<Rightarrow> string option \<Rightarrow> string" where
  "formattedOptionalAttribute attrName v =
     (case v of
        None \<Rightarrow> ''''
      | Some val \<Rightarrow> ''        '' @ attrName @ ''='' @ bsq @ val @ bsq @ bsn)"

definition underscored :: "string \<Rightarrow> string" where
  "underscored attrName = map (\<lambda>ch. if ch = CHR ''-'' then CHR ''_'' else ch) attrName"

definition formattedOptionalSdkLevelAttribute ::
  "'l android \<Rightarrow> moduleContext \<Rightarrow> string \<Rightarrow> string option \<Rightarrow> string \<times> moduleContext" where
  "formattedOptionalSdkLevelAttribute A ctx attrName v =
     (case v of
        None \<Rightarrow> ('''', ctx)
      | Some val \<Rightarrow>
          (case ApiLevelFromUser A val of
             Inl err \<Rightarrow> ('''', PropertyErrorf ctx (underscored attrName) err [])
           | Inr apiLevel \<Rightarrow>
               (if IsCurrent A apiLevel
                then ('''',
                      PropertyErrorf ctx (underscored attrName)
                        ([CHR 0x22] @ ''current'' @ [CHR 0x22] @
                         '' is not an allowed value for this attribute'') [])
                else (formattedOptionalAttribute attrName (Some (ApiLevel_String A apiLevel)),
                      ctx))))"

definition formattedDependenciesAttribute :: "string list option \<Rightarrow> string" where
  "formattedDependenciesAttribute dependencies =
     (case dependencies of
        None \<Rightarrow> ''''
      | Some deps \<Rightarrow> ''        dependency='' @ bsq @ strings_Join deps '':'' @ bsq @ bsn)"

definition xmlPreamble :: string where
  "xmlPreamble = concat
     [''<?xml version='' @ bsq @ ''1.0'' @ bsq @ '' encoding='' @ bsq @ ''utf-8'' @ bsq @ ''?>'' @ bsn,
      ''<!-- Copyright (C) 2018 The Android Open Source Project'' @ bsn,
      bsn,
      ''    Licensed under the Apache License, Version 2.0 (the '' @ bsq @ ''License'' @ bsq @ '');'' @ bsn,
      ''    you may not use this file except in compliance with the License.'' @ bsn,
      ''    You may obtain a copy of the License at'' @ bsn,
      bsn,
      ''        http://www.apache.org/licenses/LICENSE-2.0'' @ bsn,
      bsn,
      ''    Unless required by applicable law or agreed to in writing, software'' @ bsn,
      ''    distributed under the License is distributed on an '' @ bsq @ ''AS IS'' @ bsq @ '' BASIS,'' @ bsn,
      ''    WITHOUT WARRANTIES OR CONDITIONS OF ANY KIND, either express or implied.'' @ bsn,
      ''    See the License for the specific language governing permissions and'' @ bsn,
      ''    limitations under the License.'' @ bsn,
      ''-->'' @ bsn,
      ''<permissions>'' @ bsn]"

definition apexLibraryTag :: string where
  "apexLibraryTag = ''    <apex-library'' @ bsn"

definition libraryTag :: string where
  "libraryTag = ''    <library'' @ bsn"

definition permissionsContents ::
  "'l android \<Rightarrow> sdkLibraryXml \<Rightarrow> moduleContext \<Rightarrow> string \<times> moduleContext" where
  "permissionsContents A module ctx =
     (let libName = String (Lib_name (properties module));
          libNameAttr = formattedOptionalAttribute ''name'' (Some libName);
          filePath = implPath module;
          filePathAttr = formattedOptionalAttribute ''file'' (Some filePath);
          (implicitFromAttr, ctx1) =
             formattedOptionalSdkLevelAttribute A ctx ''on-bootclasspath-since''
               (On_bootclasspath_since (properties module));
          (implicitUntilAttr, ctx2) =
             formattedOptionalSdkLevelAttribute A ctx1 ''on-bootclasspath-before''
               (On_bootclasspath_before (properties module));
          (minSdkAttr, ctx3) =
             formattedOptionalSdkLevelAttribute A ctx2 ''min-device-sdk''
               (Min_device_sdk (properties module));
          (maxSdkAttr, ctx4) =
             formattedOptionalSdkLevelAttribute A ctx3 ''max-device-sdk''
               (Max_device_sdk (properties module));
          dependenciesAttr =
             formattedDependenciesAttribute (Uses_libs_dependencies (properties module));
          tag = (if Min_device_sdk (properties module) \<noteq> None then apexLibraryTag
                 else libraryTag)
      in (concat
            [xmlPreamble, tag, libNameAttr, filePathAttr, implicitFromAttr, implicitUntilAttr,
             minSdkAttr, maxSdkAttr, dependenciesAttr, ''    />'' @ bsn, ''</permissions>'' @ bsn],
          ctx4))"

subsection \<open>Self validation\<close>

definition attrAtLeastT ::
  "'l android \<Rightarrow> moduleContext \<Rightarrow> 'l \<Rightarrow> string option \<Rightarrow> string \<Rightarrow> moduleContext" where
  "attrAtLeastT A ctx t attr attrName =
     (case attr of
        None \<Rightarrow> ctx
      | Some val \<Rightarrow>
          (case ApiLevelFromUser A val of
             Inl err \<Rightarrow> ctx
           | Inr level \<Rightarrow>
               (if GreaterThan A t level
                then PropertyErrorf ctx attrName ''Attribute value needs to be at least T'' []
                else ctx)))"

definition validateAtLeastTAttributes ::
  "'l android \<Rightarrow> sdkLibraryXml \<Rightarrow> moduleContext \<Rightarrow> panic + moduleContext" where
  "validateAtLeastTAttributes A module ctx =
     (case ApiLevelOrPanic A ''Tiramisu'' of
        Inl p \<Rightarrow> Inl p
      | Inr t \<Rightarrow>
          (let ctx1 = attrAtLeastT A ctx t (Min_device_sdk (properties module)) ''min_device_sdk'';
               ctx2 = attrAtLeastT A ctx1 t (Max_device_sdk (properties module)) ''max_device_sdk'';
               ctx3 = attrAtLeastT A ctx2 t (On_bootclasspath_before (properties module))
                        ''on_bootclasspath_before'';
               ctx4 = attrAtLeastT A ctx3 t (On_bootclasspath_since (properties module))
                        ''on_bootclasspath_since''
           in Inr ctx4))"

definition validateMinAndMaxDeviceSdk ::
  "'l android \<Rightarrow> sdkLibraryXml \<Rightarrow> moduleContext \<Rightarrow> moduleContext" where
  "validateMinAndMaxDeviceSdk A module ctx =
     (case (Min_device_sdk (properties module), Max_device_sdk (properties module)) of
        (Some minRaw, Some maxRaw) \<Rightarrow>
          (case (ApiLevelFromUser A minRaw, ApiLevelFromUser A maxRaw) of
             (Inr minLevel, Inr maxLevel) \<Rightarrow>
               (if GreaterThan A minLevel maxLevel
                then ModuleErrorf ctx
                       (''min_device_sdk can'' @ [CHR 0x27] @ ''t be greater than max_device_sdk'') []
                else ctx)
           | _ \<Rightarrow> ctx)
      | _ \<Rightarrow> ctx)"

definition cantBeLessFormat :: string where
  "cantBeLessFormat = ''Can'' @ [CHR 0x27] @ ''t be less than module'' @ [CHR 0x27] @ ''s min sdk (%s)''"

definition notBelowModuleMin ::
  "'l android \<Rightarrow> moduleContext \<Rightarrow> 'l \<Rightarrow> string option \<Rightarrow> string \<Rightarrow> moduleContext" where
  "notBelowModuleMin A ctx moduleMinApi attr attrName =
     (case attr of
        None \<Rightarrow> ctx
      | Some val \<Rightarrow>
          (case ApiLevelFromUser A val of
             Inl err \<Rightarrow> ctx
           | Inr api \<Rightarrow>
               (if GreaterThan A moduleMinApi api
                then PropertyErrorf ctx attrName cantBeLessFormat
                       [ArgString (ApiLevel_String A moduleMinApi)]
                else ctx)))"

definition validateMinMaxDeviceSdkAndModuleMinSdk ::
  "'l android \<Rightarrow> sdkLibraryXml \<Rightarrow> moduleContext \<Rightarrow> panic + moduleContext" where
  "validateMinMaxDeviceSdkAndModuleMinSdk A module ctx =
     (case Sdk_library_min_api_level (properties module) of
        None \<Rightarrow> Inl (Panic ''invalid memory address or nil pointer dereference'')
      | Some raw \<Rightarrow>
          (case ApiLevelOrPanic A raw of
             Inl p \<Rightarrow> Inl p
           | Inr moduleMinApi \<Rightarrow>
               (let ctx1 = notBelowModuleMin A ctx moduleMinApi
                             (Min_device_sdk (properties module)) ''min_device_sdk'';
                    ctx2 = notBelowModuleMin A ctx1 moduleMinApi
                             (Max_device_sdk (properties module)) ''max_device_sdk''
                in Inr ctx2)))"

definition validateOnBootclasspathBeforeRequirements ::
  "'l android \<Rightarrow> sdkLibraryXml \<Rightarrow> moduleContext \<Rightarrow> panic + moduleContext" where
  "validateOnBootclasspathBeforeRequirements A module ctx =
     (case Sdk_library_min_api_level (properties module) of
        None \<Rightarrow> Inl (Panic ''invalid memory address or nil pointer dereference'')
      | Some raw \<Rightarrow>
          (case ApiLevelOrPanic A raw of
             Inl p \<Rightarrow> Inl p
           | Inr moduleMinApi \<Rightarrow>
               (if On_bootclasspath_before (properties module) \<noteq> None then
                  (case ApiLevelOrPanic A ''Tiramisu'' of
                     Inl p \<Rightarrow> Inl p
                   | Inr t \<Rightarrow>
                       (if LessThan A moduleMinApi t \<and> Min_device_sdk (properties module) = None
                        then Inr (PropertyErrorf ctx ''on_bootclasspath_before''
                                    (''Using this property requires that the module'' @ [CHR 0x27] @
                                     ''s min_sdk_version or the shared library'' @ [CHR 0x27] @
                                     ''s min_device_sdk is at least T'') [])
                        else Inr ctx))
                else Inr ctx)))"

definition selfValidate ::
  "'l android \<Rightarrow> sdkLibraryXml \<Rightarrow> moduleContext \<Rightarrow> panic + moduleContext" where
  "selfValidate A module ctx =
     (case validateAtLeastTAttributes A module ctx of
        Inl p \<Rightarrow> Inl p
      | Inr ctx1 \<Rightarrow>
          (case validateMinMaxDeviceSdkAndModuleMinSdk A module
                  (validateMinAndMaxDeviceSdk A module ctx1) of
             Inl p \<Rightarrow> Inl p
           | Inr ctx3 \<Rightarrow> validateOnBootclasspathBeforeRequirements A module ctx3))"

text \<open>
  \<^verbatim>\<open>sdkLibraryXml.GenerateAndroidBuildActions\<close>: the validation runs first, then the
  contents are built and put into the command of the rule.  The result is the output file
  (relative to the output directory of the module), the text of the command and the
  context.
\<close>

definition GenerateAndroidBuildActions ::
  "'l android \<Rightarrow> sdkLibraryXml \<Rightarrow> moduleContext \<Rightarrow> panic + string \<times> string \<times> moduleContext" where
  "GenerateAndroidBuildActions A module ctx =
     (let libName = String (Lib_name (properties module))
      in case selfValidate A module ctx of
           Inl p \<Rightarrow> Inl p
         | Inr ctx1 \<Rightarrow>
             (let (xmlContent, ctx2) = permissionsContents A module ctx1
              in Inr (libName @ ''.xml'',
                      ''/bin/bash -c '' @ [CHR 0x22] @ ''echo -e '' @ [CHR 0x27] @ xmlContent @
                        [CHR 0x27, CHR 0x22] @ '' > '',
                      ctx2)))"

section \<open>Concrete modules and contexts\<close>

text \<open>
  The values below are the inputs at which the theorems of the next sections are
  instantiated: a library \<^verbatim>\<open>foo\<close> in \<^verbatim>\<open>frameworks/foo\<close> with no scope property set, an empty
  context, empty scope paths, an xml module for the platform variant of \<^verbatim>\<open>foo\<close>, and an
  instance of the android operations in which an api level is its name, its number and
  whether it is a preview level.
\<close>

definition noScopeProperties :: ApiScopeProperties where
  "noScopeProperties = \<lparr>Enabled = None, Sdk_version = None, Libs = []\<rparr>"

definition fooLibrary :: SdkLibrary where
  "fooLibrary =
     \<lparr>libraryProperties =
        \<lparr>Api_dir = None, Api_only = None, Dist_stem = None,
         Unsafe_ignore_missing_latest_api = False, Generate_system_and_test_apis = False,
         Public = noScopeProperties, System = noScopeProperties, Test = noScopeProperties,
         Module_lib = noScopeProperties, System_server = noScopeProperties\<rparr>,
      moduleEnabled = True, Srcs = [''Foo.java''], Name = ''foo'', BaseModuleName = ''foo'',
      hasStandardLibs = False\<rparr>"

definition withEnabled :: "bool option \<Rightarrow> ApiScopeProperties" where
  "withEnabled b = noScopeProperties\<lparr>Enabled := b\<rparr>"

definition fooContext :: moduleContext where
  "fooContext =
     \<lparr>errors = [], missingDependencies = [], ModuleDir = ''frameworks/foo'',
      sourceFiles = [''build/soong/scripts/gen-java-current-api-files.sh''],
      otherModules = [], AllowMissingDependencies = False,
      ReleaseHiddenApiExportableStubs = False\<rparr>"

definition noPaths :: scopePaths where
  "noPaths =
     \<lparr>stubsHeaderPath = [], stubsImplPath = [], stubsDexJarPath = None,
      exportableStubsDexJarPath = None, currentApiFilePath = None, removedApiFilePath = None,
      stubsSrcJar = None, annotationsZip = None, latestApiPath = None,
      latestRemovedApiPath = None\<rparr>"

definition fooStubs :: dependency where
  "fooStubs =
     \<lparr>javaInfo = Some \<lparr>HeaderJars = [''foo.stubs-header.jar''],
                        ImplementationJars = [''foo.stubs.jar'']\<rparr>,
      DexJarBuildPath = Some (Some ''foo.stubs-dex.jar'')\<rparr>"

type_synonym level = "string \<times> nat \<times> bool"

definition knownLevels :: "(string \<times> level) list" where
  "knownLevels =
     [(''30'', (''30'', 30, False)),
      (''33'', (''33'', 33, False)),
      (''34'', (''34'', 34, False)),
      (''Tiramisu'', (''33'', 33, False)),
      (''UpsideDownCake'', (''34'', 34, False)),
      (''current'', (''current'', 10000, True))]"

fun kindName :: "SdkKind \<Rightarrow> string" where
  "kindName SdkPublic = ''public''"
| "kindName SdkSystem = ''system''"
| "kindName SdkTest = ''test''"
| "kindName SdkModule = ''module-lib''"
| "kindName SdkSystemServer = ''system-server''"
| "kindName SdkCore = ''core''"
| "kindName _ = ''invalid''"

definition levels :: "level android" where
  "levels =
     \<lparr>ApiLevelFromUser =
        (\<lambda>raw. case map_of knownLevels raw of
                  None \<Rightarrow> Inl (''not a valid api level'')
                | Some l \<Rightarrow> Inr l),
      ApiLevelOrPanic =
        (\<lambda>raw. case map_of knownLevels raw of
                  None \<Rightarrow> Inl (Panic ''not a valid api level'')
                | Some l \<Rightarrow> Inr l),
      GreaterThan = (\<lambda>a b. fst (snd a) > fst (snd b)),
      LessThan = (\<lambda>a b. fst (snd a) < fst (snd b)),
      IsCurrent = (\<lambda>l. fst l = ''current''),
      IsPreview = (\<lambda>l. snd (snd l)),
      ApiLevel_String = fst,
      FutureApiLevel = (''current'', 10000, True),
      SdkKind_String = kindName,
      UsePrebuilt = (\<lambda>s. \<not> snd (snd (ApiLevel s)))\<rparr>"

definition fooXml :: sdkLibraryXml where
  "fooXml =
     \<lparr>properties =
        \<lparr>Lib_name = Some ''foo'', On_bootclasspath_since = None,
         On_bootclasspath_before = None, Min_device_sdk = None, Max_device_sdk = None,
         Sdk_library_min_api_level = Some ''33'', Uses_libs_dependencies = None\<rparr>,
      IsForPlatform = True, ApexVariationName = '''', SocSpecific = False,
      DeviceSpecific = False, ProductSpecific = False, SystemExtSpecific = False\<rparr>"

section \<open>Auxiliary functions for the proofs\<close>

text \<open>The reports that the third loop of \<^verbatim>\<open>getGeneratedApiScopes\<close> adds, as a list.\<close>

definition extendsReports :: "apiScope list \<Rightarrow> apiScope list \<Rightarrow> report list" where
  "extendsReports enabledScopes scopes =
     concat (map (\<lambda>scope.
       if scope \<in> set enabledScopes then
         (case extends scope of
            None \<Rightarrow> []
          | Some ext \<Rightarrow>
              (if ext \<notin> set enabledScopes
               then [ModuleError ''enabled api scope %q depends on disabled scope %q''
                       [ArgScope scope, ArgScope ext]]
               else []))
       else []) scopes)"

text \<open>
  A plain path element: not empty, without a slash, and neither \<^verbatim>\<open>.\<close> nor \<^verbatim>\<open>..\<close>.  Joining
  plain elements is joining them with slashes, since \<^verbatim>\<open>path.Clean\<close> has nothing to do.
\<close>

definition plain :: "string \<Rightarrow> bool" where
  "plain e = (e \<noteq> [] \<and> CHR ''/'' \<notin> set e \<and> e \<noteq> ''.'' \<and> e \<noteq> ''..'')"

text \<open>
  The api files that the loops of \<^verbatim>\<open>CreateInternalModules\<close> do not find, in the order in
  which the loops look for them: for every scope the \<^verbatim>\<open>current.txt\<close> and then the
  \<^verbatim>\<open>removed.txt\<close> of the scope, under the api directory of the module.
\<close>

definition absentApiFiles :: "string \<Rightarrow> string list \<Rightarrow> string \<Rightarrow> apiScope list \<Rightarrow> string list" where
  "absentApiFiles dir files apiDir scopes =
     concat (map (\<lambda>scope.
       filter (\<lambda>p. p \<notin> set files)
         (map (\<lambda>api. path_Join [dir, apiDir, apiFilePrefix scope @ api])
            [''current.txt'', ''removed.txt''])) scopes)"

definition currentApiFileFormat :: string where
  "currentApiFileFormat = ''Current api file %#v doesn'' @ [CHR 0x27] @ ''t exist''"

section \<open>Scope selection: theorems\<close>

lemma findClosestScopePath_chain:
  "findClosestScopePath c s = firstProvided c (accessChain s)"
proof (induction c s rule: findClosestScopePath.induct)
  case (1 c s)
  show ?case
  proof (cases "findScopePaths c s")
    case None
    note absent = None
    show ?thesis
    proof (cases "canAccess s")
      case None
      with absent show ?thesis
        by (simp add: findClosestScopePath.simps [of c s] accessChain.simps [of s]
            firstProvided_def)
    next
      case (Some t)
      with absent "1.IH" [of t] show ?thesis
        by (simp add: findClosestScopePath.simps [of c s] accessChain.simps [of s]
            firstProvided_def)
    qed
  next
    case (Some paths)
    then show ?thesis
      by (simp add: findClosestScopePath.simps [of c s] accessChain.simps [of s]
          firstProvided_def)
  qed
qed

lemma accessChain_values:
  "accessChain apiScopePublic = [apiScopePublic]"
  "accessChain apiScopeSystem = [apiScopeSystem, apiScopePublic]"
  "accessChain apiScopeTest = [apiScopeTest, apiScopeSystem, apiScopePublic]"
  "accessChain apiScopeModuleLib = [apiScopeModuleLib, apiScopeSystem, apiScopePublic]"
  "accessChain apiScopeSystemServer =
     [apiScopeSystemServer, apiScopeModuleLib, apiScopeSystem, apiScopePublic]"
  by (simp_all add: accessChain.simps [of apiScopePublic] accessChain.simps [of apiScopeSystem]
      accessChain.simps [of apiScopeTest] accessChain.simps [of apiScopeModuleLib]
      accessChain.simps [of apiScopeSystemServer] canAccess_def)

lemma firstProvided_None:
  "firstProvided c chain = None \<longleftrightarrow> (\<forall>t \<in> set chain. findScopePaths c t = None)"
  by (induction chain) (auto simp: firstProvided_def)

lemma availableScopes_filter:
  "availableScopes c scopes = map name (filter (\<lambda>s. findScopePaths c s \<noteq> None) scopes)"
  by (induction scopes) simp_all

text \<open>
  Claim C3.  For every requested scope, \<^verbatim>\<open>findClosestScopePath\<close> returns the paths of the
  first scope that has paths along the chain requested scope, its \<^verbatim>\<open>canAccess\<close>, that
  scope's \<^verbatim>\<open>canAccess\<close>, and so on.  The chain of system-server goes to module-lib (the
  \<^verbatim>\<open>canAccess\<close> override) although system-server extends public: a request for
  system-server from a library that has module-lib paths and no system-server paths gets
  the module-lib paths, without an error.
\<close>

theorem closest_scope_selection:
  "findClosestScopePath c requested = firstProvided c (accessChain requested) \<and>
   accessChain apiScopeSystemServer =
     [apiScopeSystemServer, apiScopeModuleLib, apiScopeSystem, apiScopePublic] \<and>
   extends apiScopeSystemServer = Some apiScopePublic \<and>
   (findScopePaths c apiScopeSystemServer = None \<and> findScopePaths c apiScopeModuleLib = Some p
      \<longrightarrow> findClosestScopePath c apiScopeSystemServer = Some p \<and>
          selectScopePaths c ctx SdkSystemServer = (Some p, ctx))"
proof -
  have chain: "findClosestScopePath c requested = firstProvided c (accessChain requested)"
    by (rule findClosestScopePath_chain)
  have server: "findClosestScopePath c apiScopeSystemServer = Some p"
    if "findScopePaths c apiScopeSystemServer = None"
      and "findScopePaths c apiScopeModuleLib = Some p"
    using that
    by (simp add: findClosestScopePath.simps [of c apiScopeSystemServer]
        findClosestScopePath.simps [of c apiScopeModuleLib] canAccess_def)
  then have "selectScopePaths c ctx SdkSystemServer = (Some p, ctx)"
    if "findScopePaths c apiScopeSystemServer = None"
      and "findScopePaths c apiScopeModuleLib = Some p"
    using that by (simp add: selectScopePaths_def)
  with chain server show ?thesis
    by (simp add: accessChain_values)
qed

text \<open>The library that provides module-lib only, asked for system-server.\<close>

theorem closest_scope_selection_witness:
  "findScopePaths \<lparr>scopePathsMap = Some [apiScopeModuleLib \<mapsto> noPaths], RootLibraryName = ''foo''\<rparr>
     apiScopeSystemServer = None \<and>
   findScopePaths \<lparr>scopePathsMap = Some [apiScopeModuleLib \<mapsto> noPaths], RootLibraryName = ''foo''\<rparr>
     apiScopeModuleLib = Some noPaths \<and>
   selectScopePaths \<lparr>scopePathsMap = Some [apiScopeModuleLib \<mapsto> noPaths], RootLibraryName = ''foo''\<rparr>
     fooContext SdkSystemServer = (Some noPaths, fooContext)"
  using closest_scope_selection
    [of "\<lparr>scopePathsMap = Some [apiScopeModuleLib \<mapsto> noPaths], RootLibraryName = ''foo''\<rparr>"
        apiScopeSystemServer noPaths fooContext]
  by (simp add: findScopePaths_def)

text \<open>
  Claim C4.  When no scope on the \<^verbatim>\<open>canAccess\<close> chain of the requested scope has paths,
  \<^verbatim>\<open>selectScopePaths\<close> returns no paths and reports one module error whose arguments are
  the name of the requested scope, the name of the library and the names of the scopes
  the library does provide.
\<close>

theorem scope_selection_failure:
  assumes "\<forall>t \<in> set (accessChain (sdkKindToApiScope knd)). findScopePaths c t = None"
  shows "selectScopePaths c ctx knd =
           (None,
            ctx\<lparr>errors := errors ctx @
               [ModuleError ''requires api scope %s from %s but it only has %q available''
                  [ArgString (name (sdkKindToApiScope knd)),
                   ArgString (RootLibraryName c),
                   ArgStrings (map name (filter (\<lambda>s. findScopePaths c s \<noteq> None) allApiScopes))]]\<rparr>)"
proof -
  from assms have "findClosestScopePath c (sdkKindToApiScope knd) = None"
    by (simp add: findClosestScopePath_chain firstProvided_None)
  then show ?thesis
    by (simp add: selectScopePaths_def ModuleErrorf_def availableScopes_filter)
qed

text \<open>The library that provides system only, asked for public.\<close>

theorem scope_selection_failure_witness:
  "accessChain (sdkKindToApiScope SdkPublic) = [apiScopePublic] \<and>
   findScopePaths \<lparr>scopePathsMap = Some [apiScopeSystem \<mapsto> noPaths], RootLibraryName = ''foo''\<rparr>
     apiScopePublic = None \<and>
   selectScopePaths \<lparr>scopePathsMap = Some [apiScopeSystem \<mapsto> noPaths], RootLibraryName = ''foo''\<rparr>
       fooContext SdkPublic =
     (None,
      fooContext\<lparr>errors :=
        [ModuleError ''requires api scope %s from %s but it only has %q available''
           [ArgString ''public'', ArgString ''foo'', ArgStrings [''system'']]]\<rparr>)"
  using scope_selection_failure
    [of SdkPublic "\<lparr>scopePathsMap = Some [apiScopeSystem \<mapsto> noPaths], RootLibraryName = ''foo''\<rparr>"
        fooContext]
  by (simp add: findScopePaths_def accessChain_values allApiScopes_def fooContext_def)

text \<open>
  Claim C10.  \<^verbatim>\<open>sdkKindToApiScope\<close> sends the system, test, module and system-server kinds
  to their scopes and every other kind (core, none and private among them) to the public
  scope, so that selecting paths for such a kind is selecting them for the public kind.
\<close>

theorem sdk_kind_to_scope:
  "sdkKindToApiScope SdkSystem = apiScopeSystem \<and>
   sdkKindToApiScope SdkTest = apiScopeTest \<and>
   sdkKindToApiScope SdkModule = apiScopeModuleLib \<and>
   sdkKindToApiScope SdkSystemServer = apiScopeSystemServer \<and>
   sdkKindToApiScope SdkCore = apiScopePublic \<and>
   sdkKindToApiScope SdkNone = apiScopePublic \<and>
   sdkKindToApiScope SdkPrivate = apiScopePublic \<and>
   (knd \<notin> {SdkSystem, SdkTest, SdkModule, SdkSystemServer} \<longrightarrow>
      sdkKindToApiScope knd = apiScopePublic \<and>
      selectScopePaths c ctx knd = selectScopePaths c ctx SdkPublic)"
  by (cases knd) (simp_all add: selectScopePaths_def)

text \<open>The core-platform kind is resolved as public.\<close>

theorem sdk_kind_to_scope_witness:
  "SdkCorePlatform \<notin> {SdkSystem, SdkTest, SdkModule, SdkSystemServer} \<and>
   sdkKindToApiScope SdkCorePlatform = apiScopePublic \<and>
   selectScopePaths \<lparr>scopePathsMap = Some [apiScopePublic \<mapsto> noPaths], RootLibraryName = ''foo''\<rparr>
       fooContext SdkCorePlatform =
     selectScopePaths \<lparr>scopePathsMap = Some [apiScopePublic \<mapsto> noPaths], RootLibraryName = ''foo''\<rparr>
       fooContext SdkPublic"
  using sdk_kind_to_scope
    [of SdkCorePlatform "\<lparr>scopePathsMap = Some [apiScopePublic \<mapsto> noPaths], RootLibraryName = ''foo''\<rparr>"
        fooContext]
  by simp

section \<open>Generated scopes: theorems\<close>

lemma anyScopesExplicitlyEnabled_iff:
  "anyScopesExplicitlyEnabled m scopes \<longleftrightarrow>
     (\<exists>s \<in> set scopes. Enabled (scopeToProperties m s) \<noteq> None)"
  by (induction scopes) auto

lemma generatedScopesLoop_filter:
  "generatedScopesLoop m anyExplicit scopes = filter (scopeEnabled m anyExplicit) scopes"
  by (induction scopes) simp_all

lemma all_scopes_listed: "s \<in> set allApiScopes"
  by (cases s) (simp_all add: allApiScopes_def)

lemma extendsReports_Nil [simp]: "extendsReports en [] = []"
  by (simp add: extendsReports_def)

lemma extendsReports_Cons:
  "extendsReports en (scope # scopes) =
     (if scope \<in> set en then
         (case extends scope of
            None \<Rightarrow> []
          | Some ext \<Rightarrow>
              (if ext \<notin> set en
               then [ModuleError ''enabled api scope %q depends on disabled scope %q''
                       [ArgScope scope, ArgScope ext]]
               else []))
       else []) @ extendsReports en scopes"
  by (simp add: extendsReports_def)

lemma checkExtendsLoop_reports:
  "checkExtendsLoop en scopes ctx = ctx\<lparr>errors := errors ctx @ extendsReports en scopes\<rparr>"
proof (induction scopes arbitrary: ctx)
  case Nil
  show ?case by simp
next
  case (Cons scope scopes)
  show ?case
  proof (cases "scope \<in> set en")
    case False
    then show ?thesis
      by (simp add: Cons.IH extendsReports_Cons)
  next
    case True
    note enabled = True
    show ?thesis
    proof (cases "extends scope")
      case None
      with enabled show ?thesis
        by (simp add: Cons.IH extendsReports_Cons)
    next
      case (Some ext)
      with enabled show ?thesis
        by (cases "ext \<in> set en") (simp_all add: Cons.IH extendsReports_Cons ModuleErrorf_def)
    qed
  qed
qed

lemma extendsReports_member:
  "r \<in> set (extendsReports en scopes) \<longleftrightarrow>
     (\<exists>S P. r = ModuleError ''enabled api scope %q depends on disabled scope %q''
                  [ArgScope S, ArgScope P] \<and>
            S \<in> set scopes \<and> S \<in> set en \<and> extends S = Some P \<and> P \<notin> set en)"
proof (induction scopes)
  case Nil
  show ?case by simp
next
  case (Cons scope scopes)
  show ?case
  proof (cases "scope \<in> set en")
    case False
    then show ?thesis
      by (auto simp add: Cons.IH extendsReports_Cons)
  next
    case True
    note enabled = True
    show ?thesis
    proof (cases "extends scope")
      case None
      with enabled show ?thesis
        by (auto simp add: Cons.IH extendsReports_Cons)
    next
      case (Some ext)
      with enabled show ?thesis
        by (cases "ext \<in> set en") (auto simp add: Cons.IH extendsReports_Cons)
    qed
  qed
qed

lemma extendsReports_empty:
  "extendsReports en scopes = [] \<longleftrightarrow>
     (\<forall>S \<in> set scopes. S \<in> set en \<longrightarrow> (\<forall>P. extends S = Some P \<longrightarrow> P \<in> set en))"
proof -
  have "extendsReports en scopes = [] \<longleftrightarrow> (\<forall>r. r \<notin> set (extendsReports en scopes))"
    by (cases "extendsReports en scopes") auto
  then show ?thesis
    by (simp add: extendsReports_member) blast
qed

lemma getGeneratedApiScopes_context:
  "snd (getGeneratedApiScopes m ctx) =
     ctx\<lparr>errors := errors ctx @
       extendsReports (fst (getGeneratedApiScopes m ctx)) allApiScopes\<rparr>"
  by (simp add: getGeneratedApiScopes_def Let_def checkExtendsLoop_reports)

text \<open>
  Claim C2.  Let \<^verbatim>\<open>getGeneratedApiScopes\<close> return the scopes \<open>generated\<close> and the context
  \<open>ctx'\<close>.  Every generated scope whose \<^verbatim>\<open>extends\<close> parent is not generated is reported by
  a module error whose arguments are the enabled scope and its disabled parent.  If no
  error was added, every generated scope that extends a scope has its parent generated;
  and if the generated scopes are closed in that way, the context is returned unchanged.
\<close>

theorem down_closure_validation:
  assumes "getGeneratedApiScopes m ctx = (generated, ctx')"
  shows "(\<forall>S \<in> set generated. \<forall>P. extends S = Some P \<and> P \<notin> set generated \<longrightarrow>
            ModuleError ''enabled api scope %q depends on disabled scope %q''
              [ArgScope S, ArgScope P] \<in> set (errors ctx')) \<and>
         (errors ctx' = errors ctx \<longrightarrow>
            (\<forall>S \<in> set generated. \<forall>P. extends S = Some P \<longrightarrow> P \<in> set generated)) \<and>
         ((\<forall>S \<in> set generated. \<forall>P. extends S = Some P \<longrightarrow> P \<in> set generated) \<longrightarrow>
            ctx' = ctx)"
proof -
  from assms getGeneratedApiScopes_context [of m ctx]
  have ctx': "ctx' = ctx\<lparr>errors := errors ctx @ extendsReports generated allApiScopes\<rparr>"
    by simp
  have reported: "ModuleError ''enabled api scope %q depends on disabled scope %q''
              [ArgScope S, ArgScope P] \<in> set (errors ctx')"
    if "S \<in> set generated" "extends S = Some P" "P \<notin> set generated" for S P
  proof -
    from that all_scopes_listed [of S]
    have "ModuleError ''enabled api scope %q depends on disabled scope %q''
              [ArgScope S, ArgScope P] \<in> set (extendsReports generated allApiScopes)"
      unfolding extendsReports_member by blast
    then show ?thesis
      by (simp add: ctx')
  qed
  have accepted: "P \<in> set generated"
    if "errors ctx' = errors ctx" "S \<in> set generated" "extends S = Some P" for S P
  proof -
    from that(1) have "extendsReports generated allApiScopes = []"
      by (simp add: ctx')
    with that(2,3) all_scopes_listed [of S] show ?thesis
      unfolding extendsReports_empty by blast
  qed
  have closed: "ctx' = ctx"
    if "\<forall>S \<in> set generated. \<forall>P. extends S = Some P \<longrightarrow> P \<in> set generated"
  proof -
    from that have "extendsReports generated allApiScopes = []"
      unfolding extendsReports_empty by blast
    then show ?thesis
      by (simp add: ctx')
  qed
  from reported accepted closed show ?thesis
    by blast
qed

text \<open>The library with \<^verbatim>\<open>public.enabled = false\<close> and \<^verbatim>\<open>system.enabled = true\<close>.\<close>

theorem down_closure_validation_witness:
  "getGeneratedApiScopes
     (fooLibrary\<lparr>libraryProperties := (libraryProperties fooLibrary)
        \<lparr>Public := withEnabled (Some False), System := withEnabled (Some True)\<rparr>\<rparr>) fooContext =
     ([apiScopeSystem],
      fooContext\<lparr>errors := [ModuleError ''enabled api scope %q depends on disabled scope %q''
              [ArgScope apiScopeSystem, ArgScope apiScopePublic]]\<rparr>) \<and>
   extends apiScopeSystem = Some apiScopePublic \<and>
   apiScopePublic \<notin> set [apiScopeSystem] \<and>
   ModuleError ''enabled api scope %q depends on disabled scope %q''
     [ArgScope apiScopeSystem, ArgScope apiScopePublic] \<in>
     set (errors (fooContext\<lparr>errors := [ModuleError ''enabled api scope %q depends on disabled scope %q''
              [ArgScope apiScopeSystem, ArgScope apiScopePublic]]\<rparr>))"
proof -
  have run: "getGeneratedApiScopes
     (fooLibrary\<lparr>libraryProperties := (libraryProperties fooLibrary)
        \<lparr>Public := withEnabled (Some False), System := withEnabled (Some True)\<rparr>\<rparr>) fooContext =
     ([apiScopeSystem],
      fooContext\<lparr>errors := [ModuleError ''enabled api scope %q depends on disabled scope %q''
              [ArgScope apiScopeSystem, ArgScope apiScopePublic]]\<rparr>)"
    by code_simp
  have parent: "extends apiScopeSystem = Some apiScopePublic"
    and disabled: "apiScopePublic \<notin> set [apiScopeSystem]"
    by simp_all
  from down_closure_validation [OF run] parent disabled
  have "ModuleError ''enabled api scope %q depends on disabled scope %q''
     [ArgScope apiScopeSystem, ArgScope apiScopePublic] \<in>
     set (errors (fooContext\<lparr>errors := [ModuleError ''enabled api scope %q depends on disabled scope %q''
              [ArgScope apiScopeSystem, ArgScope apiScopePublic]]\<rparr>))"
    by (simp del: moduleContext.simps)
  with run parent disabled show ?thesis
    by (intro conjI)
qed

lemma scopeEnabled_explicit:
  "scopeEnabled m True =
        (\<lambda>s. case Enabled (scopeToProperties m s) of
                Some b \<Rightarrow> b
              | None \<Rightarrow> defaultEnabledStatus s)"
  by (rule ext) (simp add: scopeEnabled_def BoolDefault_def split: option.splits)

lemma explicit_generated:
  assumes "\<exists>s \<in> set allApiScopes. Enabled (scopeToProperties m s) \<noteq> None"
  shows "fst (getGeneratedApiScopes m ctx) =
        filter (\<lambda>s. case Enabled (scopeToProperties m s) of
                       Some b \<Rightarrow> b
                     | None \<Rightarrow> defaultEnabledStatus s) allApiScopes"
proof -
  from assms have "anyScopesExplicitlyEnabled m allApiScopes"
    by (simp only: anyScopesExplicitlyEnabled_iff)
  then show ?thesis
    by (simp add: getGeneratedApiScopes_def Let_def generatedScopesLoop_filter
        scopeEnabled_explicit)
qed

lemma system_only_generated:
  assumes "Enabled (System (libraryProperties m)) = Some True"
    and "Enabled (Public (libraryProperties m)) = None"
    and "Enabled (Module_lib (libraryProperties m)) = None"
  shows "fst (getGeneratedApiScopes m ctx) =
          [apiScopePublic, apiScopeSystem] @
         (if Enabled (Test (libraryProperties m)) = Some True then [apiScopeTest] else []) @
         (if Enabled (System_server (libraryProperties m)) = Some True
          then [apiScopeSystemServer] else [])"
proof -
  have "\<exists>s \<in> set allApiScopes. Enabled (scopeToProperties m s) \<noteq> None"
    using assms(1) by (auto simp: allApiScopes_def scopeToProperties_def)
  from explicit_generated [OF this] assms show ?thesis
    by (simp add: allApiScopes_def scopeToProperties_def split: option.splits)
qed

lemma system_only_accepted:
  assumes "Enabled (System (libraryProperties m)) = Some True"
    and "Enabled (Public (libraryProperties m)) = None"
    and "Enabled (Module_lib (libraryProperties m)) = None"
  shows "snd (getGeneratedApiScopes m ctx) = ctx"
proof -
  let ?generated = "fst (getGeneratedApiScopes m ctx)"
  have members: "apiScopePublic \<in> set ?generated" "apiScopeSystem \<in> set ?generated"
    "apiScopeModuleLib \<notin> set ?generated"
    by (simp_all add: system_only_generated [OF assms])
  have "\<forall>S \<in> set allApiScopes. S \<in> set ?generated \<longrightarrow>
          (\<forall>P. extends S = Some P \<longrightarrow> P \<in> set ?generated)"
    using members by (simp add: allApiScopes_def)
  then have "extendsReports ?generated allApiScopes = []"
    by (simp only: extendsReports_empty)
  then show ?thesis
    by (simp add: getGeneratedApiScopes_context)
qed

text \<open>
  Claim C1.  If any of the five scopes has its \<^verbatim>\<open>enabled\<close> property set, a scope is generated
  exactly when its own property says so, or, without the property, when its
  \<^verbatim>\<open>defaultEnabledStatus\<close> is true, which holds for public only.  For a library with
  \<^verbatim>\<open>system.enabled = true\<close> and \<^verbatim>\<open>enabled\<close> unset for public and module-lib the generated
  scopes are public and system, followed by test and system-server when (and only when)
  these are themselves enabled explicitly, and nothing is reported; with those two unset
  as well the scopes are exactly public and system.
\<close>

theorem explicit_mode_enablement:
  "((\<exists>s \<in> set allApiScopes. Enabled (scopeToProperties m s) \<noteq> None) \<longrightarrow>
      fst (getGeneratedApiScopes m ctx) =
        filter (\<lambda>s. case Enabled (scopeToProperties m s) of
                       Some b \<Rightarrow> b
                     | None \<Rightarrow> defaultEnabledStatus s) allApiScopes) \<and>
   (defaultEnabledStatus scope \<longleftrightarrow> scope = apiScopePublic) \<and>
   (Enabled (System (libraryProperties m)) = Some True \<and>
    Enabled (Public (libraryProperties m)) = None \<and>
    Enabled (Module_lib (libraryProperties m)) = None \<longrightarrow>
      getGeneratedApiScopes m ctx =
        ([apiScopePublic, apiScopeSystem] @
         (if Enabled (Test (libraryProperties m)) = Some True then [apiScopeTest] else []) @
         (if Enabled (System_server (libraryProperties m)) = Some True
          then [apiScopeSystemServer] else []), ctx) \<and>
      (Enabled (Test (libraryProperties m)) = None \<and>
       Enabled (System_server (libraryProperties m)) = None \<longrightarrow>
         getGeneratedApiScopes m ctx = ([apiScopePublic, apiScopeSystem], ctx)))"
proof (intro conjI impI)
  assume "\<exists>s \<in> set allApiScopes. Enabled (scopeToProperties m s) \<noteq> None"
  then show "fst (getGeneratedApiScopes m ctx) =
        filter (\<lambda>s. case Enabled (scopeToProperties m s) of
                       Some b \<Rightarrow> b
                     | None \<Rightarrow> defaultEnabledStatus s) allApiScopes"
    by (rule explicit_generated)
next
  show "defaultEnabledStatus scope \<longleftrightarrow> scope = apiScopePublic"
    by (cases scope) simp_all
next
  assume scenario: "Enabled (System (libraryProperties m)) = Some True \<and>
    Enabled (Public (libraryProperties m)) = None \<and>
    Enabled (Module_lib (libraryProperties m)) = None"
  then have result: "getGeneratedApiScopes m ctx =
        ([apiScopePublic, apiScopeSystem] @
         (if Enabled (Test (libraryProperties m)) = Some True then [apiScopeTest] else []) @
         (if Enabled (System_server (libraryProperties m)) = Some True
          then [apiScopeSystemServer] else []), ctx)"
    using system_only_generated [of m ctx] system_only_accepted [of m ctx]
    by (simp add: prod_eq_iff)
  then show "getGeneratedApiScopes m ctx =
        ([apiScopePublic, apiScopeSystem] @
         (if Enabled (Test (libraryProperties m)) = Some True then [apiScopeTest] else []) @
         (if Enabled (System_server (libraryProperties m)) = Some True
          then [apiScopeSystemServer] else []), ctx)" .
  assume "Enabled (Test (libraryProperties m)) = None \<and>
       Enabled (System_server (libraryProperties m)) = None"
  with result show "getGeneratedApiScopes m ctx = ([apiScopePublic, apiScopeSystem], ctx)"
    by simp
qed

text \<open>The library \<^verbatim>\<open>foo\<close> that sets \<^verbatim>\<open>system.enabled = true\<close> and nothing else.\<close>

theorem explicit_mode_enablement_witness:
  "Enabled (System (libraryProperties (fooLibrary\<lparr>libraryProperties := (libraryProperties fooLibrary)
         \<lparr>System := withEnabled (Some True)\<rparr>\<rparr>))) = Some True \<and>
   Enabled (Public (libraryProperties (fooLibrary\<lparr>libraryProperties := (libraryProperties fooLibrary)
         \<lparr>System := withEnabled (Some True)\<rparr>\<rparr>))) = None \<and>
   Enabled (Module_lib (libraryProperties (fooLibrary\<lparr>libraryProperties := (libraryProperties fooLibrary)
         \<lparr>System := withEnabled (Some True)\<rparr>\<rparr>))) = None \<and>
   Enabled (Test (libraryProperties (fooLibrary\<lparr>libraryProperties := (libraryProperties fooLibrary)
         \<lparr>System := withEnabled (Some True)\<rparr>\<rparr>))) = None \<and>
   Enabled (System_server (libraryProperties (fooLibrary\<lparr>libraryProperties := (libraryProperties fooLibrary)
         \<lparr>System := withEnabled (Some True)\<rparr>\<rparr>))) = None \<and>
   getGeneratedApiScopes
     (fooLibrary\<lparr>libraryProperties := (libraryProperties fooLibrary)
         \<lparr>System := withEnabled (Some True)\<rparr>\<rparr>) fooContext =
     ([apiScopePublic, apiScopeSystem], fooContext)"
proof -
  let ?m = "fooLibrary\<lparr>libraryProperties := (libraryProperties fooLibrary)
         \<lparr>System := withEnabled (Some True)\<rparr>\<rparr>"
  have declared: "Enabled (System (libraryProperties ?m)) = Some True"
    "Enabled (Public (libraryProperties ?m)) = None"
    "Enabled (Module_lib (libraryProperties ?m)) = None"
    "Enabled (Test (libraryProperties ?m)) = None"
    "Enabled (System_server (libraryProperties ?m)) = None"
    by code_simp+
  from explicit_mode_enablement [of ?m fooContext apiScopePublic] declared
  have "getGeneratedApiScopes ?m fooContext = ([apiScopePublic, apiScopeSystem], fooContext)"
    by blast
  with declared show ?thesis
    by (intro conjI)
qed

section \<open>Stubs flavors: theorems\<close>

text \<open>
  Claim C5, as the code has it.  For a dependency that has a \<^verbatim>\<open>JavaInfoProvider\<close> and a dex
  jar, the extractor of the everything stubs sets the header jars and the dex jar
  \<^verbatim>\<open>stubsDexJarPath\<close> whatever the release flag says, and sets the implementation jars
  \<^verbatim>\<open>stubsImplPath\<close> only when \<^verbatim>\<open>ReleaseHiddenApiExportableStubs\<close> is off.  The extractor of the
  exportable stubs sets its own field \<^verbatim>\<open>exportableStubsDexJarPath\<close> whatever the flag says,
  and sets \<^verbatim>\<open>stubsImplPath\<close> only when the flag is on.  No other field changes.
\<close>

theorem stubs_flavor_split:
  assumes "javaInfo dep = Some lib" and "DexJarBuildPath dep = Some dexJar"
  shows "extractEverythingStubsLibraryInfoFromDependency paths ctx dep =
           Inr (paths\<lparr>stubsHeaderPath := HeaderJars lib,
                      stubsImplPath := (if ReleaseHiddenApiExportableStubs ctx
                                        then stubsImplPath paths
                                        else ImplementationJars lib),
                      stubsDexJarPath := dexJar\<rparr>, None) \<and>
         extractExportableStubsLibraryInfoFromDependency paths ctx dep =
           Inr (paths\<lparr>stubsImplPath := (if ReleaseHiddenApiExportableStubs ctx
                                        then ImplementationJars lib
                                        else stubsImplPath paths),
                      exportableStubsDexJarPath := dexJar\<rparr>, None)"
  using assms
  by (simp add: extractEverythingStubsLibraryInfoFromDependency_def
      extractExportableStubsLibraryInfoFromDependency_def Let_def)

text \<open>The stubs library of \<^verbatim>\<open>foo\<close> with the release flag on.\<close>

theorem stubs_flavor_split_witness:
  "javaInfo fooStubs = Some \<lparr>HeaderJars = [''foo.stubs-header.jar''],
                              ImplementationJars = [''foo.stubs.jar'']\<rparr> \<and>
   DexJarBuildPath fooStubs = Some (Some ''foo.stubs-dex.jar'') \<and>
   extractEverythingStubsLibraryInfoFromDependency noPaths
       (fooContext\<lparr>ReleaseHiddenApiExportableStubs := True\<rparr>) fooStubs =
     Inr (noPaths\<lparr>stubsHeaderPath := [''foo.stubs-header.jar''],
                   stubsDexJarPath := Some ''foo.stubs-dex.jar''\<rparr>, None) \<and>
   extractExportableStubsLibraryInfoFromDependency noPaths
       (fooContext\<lparr>ReleaseHiddenApiExportableStubs := True\<rparr>) fooStubs =
     Inr (noPaths\<lparr>stubsImplPath := [''foo.stubs.jar''],
                   exportableStubsDexJarPath := Some ''foo.stubs-dex.jar''\<rparr>, None)"
proof -
  have info: "javaInfo fooStubs = Some \<lparr>HeaderJars = [''foo.stubs-header.jar''],
                              ImplementationJars = [''foo.stubs.jar'']\<rparr>"
    and dex: "DexJarBuildPath fooStubs = Some (Some ''foo.stubs-dex.jar'')"
    by (simp_all add: fooStubs_def)
  have flag: "ReleaseHiddenApiExportableStubs
                (fooContext\<lparr>ReleaseHiddenApiExportableStubs := True\<rparr>)"
    by simp
  from stubs_flavor_split [OF info dex, of noPaths
      "fooContext\<lparr>ReleaseHiddenApiExportableStubs := True\<rparr>"] flag
  have "extractEverythingStubsLibraryInfoFromDependency noPaths
       (fooContext\<lparr>ReleaseHiddenApiExportableStubs := True\<rparr>) fooStubs =
     Inr (noPaths\<lparr>stubsHeaderPath := [''foo.stubs-header.jar''],
                   stubsDexJarPath := Some ''foo.stubs-dex.jar''\<rparr>, None) \<and>
   extractExportableStubsLibraryInfoFromDependency noPaths
       (fooContext\<lparr>ReleaseHiddenApiExportableStubs := True\<rparr>) fooStubs =
     Inr (noPaths\<lparr>stubsImplPath := [''foo.stubs.jar''],
                   exportableStubsDexJarPath := Some ''foo.stubs-dex.jar''\<rparr>, None)"
    by (simp add: noPaths_def)
  with info dex show ?thesis
    by (intro conjI) simp_all
qed

text \<open>
  With the release flag on, the extractor of the everything stubs still fills the dex jar
  field, which was unset before: the dex jar is not written ``only when the flag is off''.
\<close>

theorem everything_dex_jar_counterexample:
  "ReleaseHiddenApiExportableStubs (fooContext\<lparr>ReleaseHiddenApiExportableStubs := True\<rparr>) \<and>
   stubsDexJarPath noPaths = None \<and>
   extractEverythingStubsLibraryInfoFromDependency noPaths
       (fooContext\<lparr>ReleaseHiddenApiExportableStubs := True\<rparr>) fooStubs =
     Inr (noPaths\<lparr>stubsHeaderPath := [''foo.stubs-header.jar''],
                   stubsDexJarPath := Some ''foo.stubs-dex.jar''\<rparr>, None) \<and>
   stubsDexJarPath (noPaths\<lparr>stubsHeaderPath := [''foo.stubs-header.jar''],
                   stubsDexJarPath := Some ''foo.stubs-dex.jar''\<rparr>) = Some ''foo.stubs-dex.jar''"
  by code_simp

section \<open>The permissions xml: theorems\<close>

lemma permissionsContents_shape:
  "\<exists>rest. fst (permissionsContents A m ctx) =
     xmlPreamble @
     (if Min_device_sdk (properties m) \<noteq> None then apexLibraryTag else libraryTag) @ rest"
  by (simp add: permissionsContents_def Let_def case_prod_beta)

lemma apex_tag_not_library_tag:
  "\<not> prefix apexLibraryTag (libraryTag @ rest)" "\<not> prefix libraryTag (apexLibraryTag @ rest)"
  by (simp_all add: apexLibraryTag_def libraryTag_def)

text \<open>
  Claim C9.  The contents of the permissions xml are the fixed preamble up to
  \<^verbatim>\<open><permissions>\<close> followed by the opening of one element: it is \<^verbatim>\<open><apex-library\<close> if and
  only if \<^verbatim>\<open>Min_device_sdk\<close> is set, and \<^verbatim>\<open><library\<close> if and only if it is not set.
\<close>

theorem permissions_library_element:
  "(prefix (xmlPreamble @ apexLibraryTag) (fst (permissionsContents A m ctx)) \<longleftrightarrow>
      Min_device_sdk (properties m) \<noteq> None) \<and>
   (prefix (xmlPreamble @ libraryTag) (fst (permissionsContents A m ctx)) \<longleftrightarrow>
      Min_device_sdk (properties m) = None)"
proof -
  obtain rest where shape: "fst (permissionsContents A m ctx) =
     xmlPreamble @
     (if Min_device_sdk (properties m) \<noteq> None then apexLibraryTag else libraryTag) @ rest"
    using permissionsContents_shape by blast
  show ?thesis
  proof (cases "Min_device_sdk (properties m)")
    case None
    with shape show ?thesis
      by (simp add: apex_tag_not_library_tag)
  next
    case (Some v)
    with shape show ?thesis
      by (simp add: apex_tag_not_library_tag)
  qed
qed

text \<open>The xml of \<^verbatim>\<open>foo\<close> with \<^verbatim>\<open>min_device_sdk: "33"\<close> and without it.\<close>

theorem permissions_library_element_witness:
  "Min_device_sdk (properties (fooXml\<lparr>properties := (properties fooXml)\<lparr>Min_device_sdk := Some ''33''\<rparr>\<rparr>))
     \<noteq> None \<and>
   prefix (xmlPreamble @ apexLibraryTag)
     (fst (permissionsContents levels
        (fooXml\<lparr>properties := (properties fooXml)\<lparr>Min_device_sdk := Some ''33''\<rparr>\<rparr>) fooContext)) \<and>
   Min_device_sdk (properties fooXml) = None \<and>
   prefix (xmlPreamble @ libraryTag) (fst (permissionsContents levels fooXml fooContext))"
proof -
  have set: "Min_device_sdk (properties (fooXml\<lparr>properties := (properties fooXml)\<lparr>Min_device_sdk := Some ''33''\<rparr>\<rparr>))
     \<noteq> None"
    and unset: "Min_device_sdk (properties fooXml) = None"
    by (simp_all add: fooXml_def)
  from set permissions_library_element
    [of levels "fooXml\<lparr>properties := (properties fooXml)\<lparr>Min_device_sdk := Some ''33''\<rparr>\<rparr>" fooContext]
  have apex: "prefix (xmlPreamble @ apexLibraryTag)
     (fst (permissionsContents levels
        (fooXml\<lparr>properties := (properties fooXml)\<lparr>Min_device_sdk := Some ''33''\<rparr>\<rparr>) fooContext))"
    by blast
  from unset permissions_library_element [of levels fooXml fooContext]
  have plain: "prefix (xmlPreamble @ libraryTag) (fst (permissionsContents levels fooXml fooContext))"
    by blast
  from set apex unset plain show ?thesis
    by (intro conjI)
qed

lemma PropertyErrorf_keeps: "set (errors ctx) \<subseteq> set (errors (PropertyErrorf ctx prop format args))"
  by (auto simp: PropertyErrorf_def)

lemma ModuleErrorf_keeps: "set (errors ctx) \<subseteq> set (errors (ModuleErrorf ctx format args))"
  by (auto simp: ModuleErrorf_def)

lemma notBelowModuleMin_keeps:
  "set (errors ctx) \<subseteq> set (errors (notBelowModuleMin A ctx lvl attr attrName))"
  using PropertyErrorf_keeps
  by (auto simp: notBelowModuleMin_def split: option.splits sum.splits)

lemma validateMinMaxDeviceSdkAndModuleMinSdk_keeps:
  assumes "validateMinMaxDeviceSdkAndModuleMinSdk A m ctx = Inr ctx'"
  shows "set (errors ctx) \<subseteq> set (errors ctx')"
proof -
  from assms obtain lvl where
    result: "ctx' = notBelowModuleMin A
              (notBelowModuleMin A ctx lvl (Min_device_sdk (properties m)) ''min_device_sdk'')
              lvl (Max_device_sdk (properties m)) ''max_device_sdk''"
    by (auto simp: validateMinMaxDeviceSdkAndModuleMinSdk_def Let_def
        split: option.splits sum.splits)
  let ?ctx1 = "notBelowModuleMin A ctx lvl (Min_device_sdk (properties m)) ''min_device_sdk''"
  have "set (errors ctx) \<subseteq> set (errors ?ctx1)"
    by (rule notBelowModuleMin_keeps)
  also have "\<dots> \<subseteq> set (errors ctx')"
    unfolding result by (rule notBelowModuleMin_keeps)
  finally show ?thesis .
qed

lemma validateOnBootclasspathBeforeRequirements_keeps:
  assumes "validateOnBootclasspathBeforeRequirements A m ctx = Inr ctx'"
  shows "set (errors ctx) \<subseteq> set (errors ctx')"
proof -
  from assms have "ctx' = ctx \<or> (\<exists>format. ctx' = PropertyErrorf ctx ''on_bootclasspath_before'' format [])"
    by (auto simp: validateOnBootclasspathBeforeRequirements_def
        split: option.splits sum.splits if_splits)
  then show ?thesis
    by (auto simp: PropertyErrorf_def)
qed

lemma formattedOptionalSdkLevelAttribute_keeps:
  "set (errors ctx) \<subseteq> set (errors (snd (formattedOptionalSdkLevelAttribute A ctx attrName v)))"
  using PropertyErrorf_keeps
  by (auto simp: formattedOptionalSdkLevelAttribute_def split: option.splits sum.splits)

lemma permissionsContents_keeps:
  "set (errors ctx) \<subseteq> set (errors (snd (permissionsContents A m ctx)))"
proof -
  let ?c1 = "snd (formattedOptionalSdkLevelAttribute A ctx ''on-bootclasspath-since''
               (On_bootclasspath_since (properties m)))"
  let ?c2 = "snd (formattedOptionalSdkLevelAttribute A ?c1 ''on-bootclasspath-before''
               (On_bootclasspath_before (properties m)))"
  let ?c3 = "snd (formattedOptionalSdkLevelAttribute A ?c2 ''min-device-sdk''
               (Min_device_sdk (properties m)))"
  let ?c4 = "snd (formattedOptionalSdkLevelAttribute A ?c3 ''max-device-sdk''
               (Max_device_sdk (properties m)))"
  have "snd (permissionsContents A m ctx) = ?c4"
    by (simp add: permissionsContents_def Let_def case_prod_beta)
  moreover have "set (errors ctx) \<subseteq> set (errors ?c1)" "set (errors ?c1) \<subseteq> set (errors ?c2)"
    "set (errors ?c2) \<subseteq> set (errors ?c3)" "set (errors ?c3) \<subseteq> set (errors ?c4)"
    by (rule formattedOptionalSdkLevelAttribute_keeps)+
  ultimately show ?thesis
    by auto
qed

lemma validateMinAndMaxDeviceSdk_reports:
  assumes "Min_device_sdk (properties m) = Some minRaw"
    and "Max_device_sdk (properties m) = Some maxRaw"
    and "ApiLevelFromUser A minRaw = Inr minLevel"
    and "ApiLevelFromUser A maxRaw = Inr maxLevel"
  shows "validateMinAndMaxDeviceSdk A m ctx =
           (if GreaterThan A minLevel maxLevel
            then ModuleErrorf ctx
                   (''min_device_sdk can'' @ [CHR 0x27] @ ''t be greater than max_device_sdk'') []
            else ctx)"
  using assms by (simp add: validateMinAndMaxDeviceSdk_def)

lemma selfValidate_reports:
  assumes "Min_device_sdk (properties m) = Some minRaw"
    and "Max_device_sdk (properties m) = Some maxRaw"
    and "ApiLevelFromUser A minRaw = Inr minLevel"
    and "ApiLevelFromUser A maxRaw = Inr maxLevel"
    and "GreaterThan A minLevel maxLevel"
    and "selfValidate A m ctx = Inr ctx1"
  shows "ModuleError (''min_device_sdk can'' @ [CHR 0x27] @ ''t be greater than max_device_sdk'') []
           \<in> set (errors ctx1)"
proof -
  from assms(6) obtain ctxa ctxb where
    a: "validateAtLeastTAttributes A m ctx = Inr ctxa"
    and b: "validateMinMaxDeviceSdkAndModuleMinSdk A m (validateMinAndMaxDeviceSdk A m ctxa) = Inr ctxb"
    and c: "validateOnBootclasspathBeforeRequirements A m ctxb = Inr ctx1"
    by (auto simp: selfValidate_def split: sum.splits)
  have "ModuleError (''min_device_sdk can'' @ [CHR 0x27] @ ''t be greater than max_device_sdk'') []
           \<in> set (errors (validateMinAndMaxDeviceSdk A m ctxa))"
    using validateMinAndMaxDeviceSdk_reports [OF assms(1-4), of ctxa] assms(5)
    by (simp add: ModuleErrorf_def)
  with validateMinMaxDeviceSdkAndModuleMinSdk_keeps [OF b]
    validateOnBootclasspathBeforeRequirements_keeps [OF c]
  show ?thesis
    by blast
qed

text \<open>
  Claim C8.  Let \<^verbatim>\<open>min_device_sdk\<close> and \<^verbatim>\<open>max_device_sdk\<close> both be set and both be valid api
  levels.  If the minimum is greater than the maximum, then either the validation panics
  and so does \<^verbatim>\<open>GenerateAndroidBuildActions\<close>, or the module error ``min_device_sdk can't be
  greater than max_device_sdk'' is already in the context that the validation hands to
  \<^verbatim>\<open>permissionsContents\<close>, that is before the text of the descriptor is built, and it is
  still in the context that \<^verbatim>\<open>GenerateAndroidBuildActions\<close> returns.  Hence whenever
  \<^verbatim>\<open>GenerateAndroidBuildActions\<close> returns without that error, the minimum is not greater than
  the maximum.  The order on api levels is the one of package android (\<^verbatim>\<open>GreaterThan\<close>).
\<close>

theorem min_max_device_sdk_invariant:
  assumes "Min_device_sdk (properties m) = Some minRaw"
    and "Max_device_sdk (properties m) = Some maxRaw"
    and "ApiLevelFromUser A minRaw = Inr minLevel"
    and "ApiLevelFromUser A maxRaw = Inr maxLevel"
  shows "(GreaterThan A minLevel maxLevel \<longrightarrow>
            (case selfValidate A m ctx of
               Inl p \<Rightarrow> GenerateAndroidBuildActions A m ctx = Inl p
             | Inr ctx1 \<Rightarrow>
                 ModuleError (''min_device_sdk can'' @ [CHR 0x27] @
                              ''t be greater than max_device_sdk'') [] \<in> set (errors ctx1) \<and>
                 (\<exists>out cmd ctx2.
                    GenerateAndroidBuildActions A m ctx = Inr (out, cmd, ctx2) \<and>
                    ctx2 = snd (permissionsContents A m ctx1) \<and>
                    ModuleError (''min_device_sdk can'' @ [CHR 0x27] @
                                 ''t be greater than max_device_sdk'') [] \<in> set (errors ctx2)))) \<and>
         (\<forall>out cmd ctx2.
            GenerateAndroidBuildActions A m ctx = Inr (out, cmd, ctx2) \<and>
            ModuleError (''min_device_sdk can'' @ [CHR 0x27] @
                         ''t be greater than max_device_sdk'') [] \<notin> set (errors ctx2) \<longrightarrow>
            \<not> GreaterThan A minLevel maxLevel)"
proof -
  have rejected: "case selfValidate A m ctx of
               Inl p \<Rightarrow> GenerateAndroidBuildActions A m ctx = Inl p
             | Inr ctx1 \<Rightarrow>
                 ModuleError (''min_device_sdk can'' @ [CHR 0x27] @
                              ''t be greater than max_device_sdk'') [] \<in> set (errors ctx1) \<and>
                 (\<exists>out cmd ctx2.
                    GenerateAndroidBuildActions A m ctx = Inr (out, cmd, ctx2) \<and>
                    ctx2 = snd (permissionsContents A m ctx1) \<and>
                    ModuleError (''min_device_sdk can'' @ [CHR 0x27] @
                                 ''t be greater than max_device_sdk'') [] \<in> set (errors ctx2))"
    if greater: "GreaterThan A minLevel maxLevel"
  proof (cases "selfValidate A m ctx")
    case (Inl p)
    then show ?thesis
      by (simp add: GenerateAndroidBuildActions_def Let_def)
  next
    case (Inr ctx1)
    from selfValidate_reports [OF assms greater Inr]
    have first: "ModuleError (''min_device_sdk can'' @ [CHR 0x27] @
                   ''t be greater than max_device_sdk'') [] \<in> set (errors ctx1)" .
    with permissionsContents_keeps [of ctx1 A m]
    have later: "ModuleError (''min_device_sdk can'' @ [CHR 0x27] @
                   ''t be greater than max_device_sdk'') []
                 \<in> set (errors (snd (permissionsContents A m ctx1)))"
      by blast
    have "\<exists>out cmd. GenerateAndroidBuildActions A m ctx =
            Inr (out, cmd, snd (permissionsContents A m ctx1))"
      using Inr by (simp add: GenerateAndroidBuildActions_def Let_def case_prod_beta)
    with Inr first later show ?thesis
      by auto
  qed
  have accepted: "\<not> GreaterThan A minLevel maxLevel"
    if "GenerateAndroidBuildActions A m ctx = Inr (out, cmd, ctx2)"
      and "ModuleError (''min_device_sdk can'' @ [CHR 0x27] @
                         ''t be greater than max_device_sdk'') [] \<notin> set (errors ctx2)"
    for out cmd ctx2
  proof
    assume "GreaterThan A minLevel maxLevel"
    from rejected [OF this] that show False
      by (cases "selfValidate A m ctx") auto
  qed
  from rejected accepted show ?thesis
    by blast
qed

text \<open>The xml of \<^verbatim>\<open>foo\<close> with \<^verbatim>\<open>min_device_sdk: "34"\<close> and \<^verbatim>\<open>max_device_sdk: "33"\<close>.\<close>

theorem min_max_device_sdk_invariant_witness:
  "Min_device_sdk (properties (fooXml\<lparr>properties := (properties fooXml)
      \<lparr>Min_device_sdk := Some ''34'', Max_device_sdk := Some ''33''\<rparr>\<rparr>)) = Some ''34'' \<and>
   Max_device_sdk (properties (fooXml\<lparr>properties := (properties fooXml)
      \<lparr>Min_device_sdk := Some ''34'', Max_device_sdk := Some ''33''\<rparr>\<rparr>)) = Some ''33'' \<and>
   ApiLevelFromUser levels ''34'' = Inr (''34'', 34, False) \<and>
   ApiLevelFromUser levels ''33'' = Inr (''33'', 33, False) \<and>
   GreaterThan levels (''34'', 34, False) (''33'', 33, False) \<and>
   selfValidate levels (fooXml\<lparr>properties := (properties fooXml)
      \<lparr>Min_device_sdk := Some ''34'', Max_device_sdk := Some ''33''\<rparr>\<rparr>) fooContext =
     Inr (fooContext\<lparr>errors :=
            [ModuleError (''min_device_sdk can'' @ [CHR 0x27] @
                          ''t be greater than max_device_sdk'') []]\<rparr>) \<and>
   (\<exists>out cmd ctx2.
      GenerateAndroidBuildActions levels (fooXml\<lparr>properties := (properties fooXml)
        \<lparr>Min_device_sdk := Some ''34'', Max_device_sdk := Some ''33''\<rparr>\<rparr>) fooContext =
        Inr (out, cmd, ctx2) \<and>
      ModuleError (''min_device_sdk can'' @ [CHR 0x27] @
                   ''t be greater than max_device_sdk'') [] \<in> set (errors ctx2))"
proof -
  let ?m = "fooXml\<lparr>properties := (properties fooXml)
      \<lparr>Min_device_sdk := Some ''34'', Max_device_sdk := Some ''33''\<rparr>\<rparr>"
  have given: "Min_device_sdk (properties ?m) = Some ''34''"
    "Max_device_sdk (properties ?m) = Some ''33''"
    "ApiLevelFromUser levels ''34'' = Inr (''34'', 34, False)"
    "ApiLevelFromUser levels ''33'' = Inr (''33'', 33, False)"
    by code_simp+
  have greater: "GreaterThan levels (''34'', 34, False) (''33'', 33, False)"
    by code_simp
  have validated: "selfValidate levels ?m fooContext =
     Inr (fooContext\<lparr>errors :=
            [ModuleError (''min_device_sdk can'' @ [CHR 0x27] @
                          ''t be greater than max_device_sdk'') []]\<rparr>)"
    by code_simp
  from min_max_device_sdk_invariant [OF given, of fooContext] greater validated
  have "\<exists>out cmd ctx2.
      GenerateAndroidBuildActions levels ?m fooContext = Inr (out, cmd, ctx2) \<and>
      ModuleError (''min_device_sdk can'' @ [CHR 0x27] @
                   ''t be greater than max_device_sdk'') [] \<in> set (errors ctx2)"
    by (auto simp del: moduleContext.simps)
  with given greater validated show ?thesis
    by (intro conjI)
qed

section \<open>Prebuilt jars of numbered versions: theorems\<close>

lemma splitOn_no_separator: "c \<notin> set e \<Longrightarrow> splitOn c e = [e]"
  by (induction e) auto

lemma splitOn_append: "c \<notin> set e \<Longrightarrow> splitOn c (e @ c # rest) = e # splitOn c rest"
  by (induction e) auto

lemma strings_Join_Cons:
  "es \<noteq> [] \<Longrightarrow> strings_Join (e # es) sep = e @ sep @ strings_Join es sep"
  by (cases es) simp_all

lemma strings_Join_append:
  "xs \<noteq> [] \<Longrightarrow> ys \<noteq> [] \<Longrightarrow>
   strings_Join (xs @ ys) sep = strings_Join xs sep @ sep @ strings_Join ys sep"
proof (induction xs)
  case Nil
  then show ?case by simp
next
  case (Cons x xs)
  show ?case
  proof (cases "xs = []")
    case True
    with Cons.prems show ?thesis
      by (simp add: strings_Join_Cons)
  next
    case False
    with Cons show ?thesis
      by (simp add: strings_Join_Cons)
  qed
qed

lemma splitOn_joined:
  "es \<noteq> [] \<Longrightarrow> \<forall>e \<in> set es. c \<notin> set e \<Longrightarrow> splitOn c (strings_Join es [c]) = es"
proof (induction es)
  case Nil
  then show ?case by simp
next
  case (Cons e es)
  show ?case
  proof (cases "es = []")
    case True
    with Cons.prems show ?thesis
      by (simp add: splitOn_no_separator)
  next
    case False
    with Cons show ?thesis
      by (simp add: strings_Join_Cons splitOn_append)
  qed
qed

lemma cleanLoop_plain:
  "\<forall>e \<in> set es. plain e \<Longrightarrow> cleanLoop rooted out es = out @ es"
  by (induction es arbitrary: out) (auto simp: plain_def)

lemma strings_Join_not_empty:
  "es \<noteq> [] \<Longrightarrow> \<forall>e \<in> set es. e \<noteq> [] \<Longrightarrow> strings_Join es sep \<noteq> []"
  by (cases es; cases "tl es") auto

lemma strings_Join_hd:
  "es \<noteq> [] \<Longrightarrow> \<forall>e \<in> set es. e \<noteq> [] \<Longrightarrow> hd (strings_Join es sep) = hd (hd es)"
  by (cases es; cases "tl es") auto

lemma Clean_plain:
  assumes "es \<noteq> []" and "\<forall>e \<in> set es. plain e"
  shows "Clean (strings_Join es ''/'') = strings_Join es ''/''"
proof -
  let ?p = "strings_Join es ''/''"
  from assms have nonempty: "?p \<noteq> []"
    by (intro strings_Join_not_empty) (auto simp: plain_def)
  from assms have "hd ?p = hd (hd es)"
    by (intro strings_Join_hd) (auto simp: plain_def)
  moreover from assms have "hd (hd es) \<noteq> CHR ''/''"
    by (cases es; cases "hd es") (auto simp: plain_def)
  ultimately have relative: "hd ?p \<noteq> CHR ''/''"
    by simp
  from assms have split: "splitOn (CHR ''/'') ?p = es"
    by (intro splitOn_joined) (auto simp: plain_def)
  from nonempty obtain ch rest where p: "?p = ch # rest"
    by (cases ?p) auto
  with relative have "ch \<noteq> CHR ''/''"
    by simp
  then have "Clean ?p = ?p"
    using nonempty split assms(2) p
    by (simp add: Clean_def Let_def cleanLoop_plain del: strings_Join.simps)
  then show ?thesis .
qed

lemma path_Join_plain:
  assumes "es \<noteq> []" and "\<forall>e \<in> set es. plain e"
  shows "path_Join es = strings_Join es ''/''"
proof -
  from assms(2) have "filter (\<lambda>e. e \<noteq> '''') es = es"
    by (auto simp: plain_def filter_id_conv)
  with assms show ?thesis
    by (simp add: path_Join_def Let_def Clean_plain)
qed

lemma path_Join_nested:
  assumes "ds \<noteq> []" and "\<forall>e \<in> set ds. plain e" and "plain f"
  shows "path_Join [path_Join ds, f] = strings_Join (ds @ [f]) ''/''"
proof -
  from assms have dir: "path_Join ds = strings_Join ds ''/''"
    by (simp add: path_Join_plain)
  from assms have "strings_Join ds ''/'' \<noteq> []"
    by (intro strings_Join_not_empty) (auto simp: plain_def)
  moreover from assms(3) have "f \<noteq> []"
    by (simp add: plain_def)
  ultimately have "path_Join [strings_Join ds ''/'', f] = Clean (strings_Join ds ''/'' @ ''/'' @ f)"
    by (simp add: path_Join_def)
  then have "path_Join [path_Join ds, f] = Clean (strings_Join ds ''/'' @ ''/'' @ f)"
    by (simp only: dir)
  also have "strings_Join ds ''/'' @ ''/'' @ f = strings_Join (ds @ [f]) ''/''"
    using assms(1) by (simp add: strings_Join_append)
  also have "Clean \<dots> = strings_Join (ds @ [f]) ''/''"
    using assms by (intro Clean_plain) auto
  finally show ?thesis .
qed

lemma plain_jar: "baseName \<noteq> [] \<Longrightarrow> CHR ''/'' \<notin> set baseName \<Longrightarrow> plain (baseName @ ''.jar'')"
  by (cases baseName; cases "tl baseName") (auto simp: plain_def)

lemma prebuilt_jar_path:
  assumes "plain ver" and "plain knd" and "baseName \<noteq> []" and "CHR ''/'' \<notin> set baseName"
  shows "path_Join [path_Join [''prebuilts'', ''sdk'', ver, knd], baseName @ ''.jar''] =
           ''prebuilts/sdk/'' @ ver @ ''/'' @ knd @ ''/'' @ baseName @ ''.jar''"
proof -
  have "plain ''prebuilts''" "plain ''sdk''"
    by (simp_all add: plain_def)
  with assms have "\<forall>e \<in> set [''prebuilts'', ''sdk'', ver, knd]. plain e"
    by simp
  then have "path_Join [path_Join [''prebuilts'', ''sdk'', ver, knd], baseName @ ''.jar''] =
      strings_Join ([''prebuilts'', ''sdk'', ver, knd] @ [baseName @ ''.jar'']) ''/''"
    using plain_jar [OF assms(3,4)] by (intro path_Join_nested) simp_all
  then show ?thesis
    by simp
qed

text \<open>
  Claim C7, as the code has it.  For a requested sdk version whose api level is not a
  preview level, \<^verbatim>\<open>selectHeaderJarsForSdkVersion\<close> does not look at the scope paths of the
  library.  With plain names for the level, the kind and the library, the jar is
  \<^verbatim>\<open>prebuilts/sdk/<version>/<kind>/<baseName>.jar\<close>, where version and kind are the requested
  ones when \<^verbatim>\<open>UsePrebuilt\<close> holds for the request and \<^verbatim>\<open>FutureApiLevel\<close> and the system kind
  otherwise.  If that file exists, or if missing dependencies are allowed, the result is
  that one path and nothing is reported; otherwise the result is empty and a property
  error on \<^verbatim>\<open>sdk_library\<close> names the raw version and the path.
\<close>

theorem numbered_version_resolution:
  assumes numbered: "\<not> IsPreview A (ApiLevel s)"
    and ver: "ver = (if UsePrebuilt A s then ApiLevel s else FutureApiLevel A)"
    and knd: "knd = (if UsePrebuilt A s then Kind s else SdkSystem)"
    and plain: "plain (ApiLevel_String A ver)" "plain (SdkKind_String A knd)"
      "RootLibraryName c \<noteq> []" "CHR ''/'' \<notin> set (RootLibraryName c)"
    and jar: "jar = ''prebuilts/sdk/'' @ ApiLevel_String A ver @ ''/'' @ SdkKind_String A knd @
                    ''/'' @ RootLibraryName c @ ''.jar''"
  shows "selectHeaderJarsForSdkVersion A (c\<lparr>scopePathsMap := anyPaths\<rparr>) ctx s =
           selectHeaderJarsForSdkVersion A c ctx s \<and>
         selectHeaderJarsForSdkVersion A c ctx s =
           (if jar \<in> set (sourceFiles ctx) \<or> AllowMissingDependencies ctx then ([jar], ctx)
            else ([], PropertyErrorf ctx ''sdk_library''
                        ''invalid sdk version %q, %q does not exist''
                        [ArgString (Raw s), ArgString jar]))"
proof -
  have path: "path_Join [path_Join [''prebuilts'', ''sdk'', ApiLevel_String A ver,
                  SdkKind_String A knd], RootLibraryName c @ ''.jar''] = jar"
    unfolding jar using plain by (rule prebuilt_jar_path)
  have prebuilt: "PrebuiltJars A ctx (RootLibraryName c) s =
           (if jar \<in> set (sourceFiles ctx) \<or> AllowMissingDependencies ctx then ([jar], ctx)
            else ([], PropertyErrorf ctx ''sdk_library''
                        ''invalid sdk version %q, %q does not exist''
                        [ArgString (Raw s), ArgString jar]))"
  proof (cases "UsePrebuilt A s")
    case True
    with path ver knd show ?thesis
      by (simp add: PrebuiltJars_def Let_def ExistentPathForSource_def)
  next
    case False
    with path ver knd show ?thesis
      by (simp add: PrebuiltJars_def Let_def ExistentPathForSource_def)
  qed
  from numbered have "selectHeaderJarsForSdkVersion A c ctx s =
      PrebuiltJars A ctx (RootLibraryName c) s"
    and "selectHeaderJarsForSdkVersion A (c\<lparr>scopePathsMap := anyPaths\<rparr>) ctx s =
      PrebuiltJars A ctx (RootLibraryName c) s"
    by (simp_all add: selectHeaderJarsForSdkVersion_def)
  with prebuilt show ?thesis
    by simp
qed

text \<open>Version 30 of the public api of \<^verbatim>\<open>foo\<close>, with no prebuilt jar in the tree.\<close>

theorem numbered_version_resolution_witness:
  "\<not> IsPreview levels (ApiLevel \<lparr>Kind = SdkPublic, ApiLevel = (''30'', 30, False), Raw = ''30''\<rparr>) \<and>
   UsePrebuilt levels \<lparr>Kind = SdkPublic, ApiLevel = (''30'', 30, False), Raw = ''30''\<rparr> \<and>
   plain (ApiLevel_String levels (''30'', 30, False)) \<and>
   plain (SdkKind_String levels SdkPublic) \<and>
   ''prebuilts/sdk/30/public/foo.jar'' \<notin> set (sourceFiles fooContext) \<and>
   \<not> AllowMissingDependencies fooContext \<and>
   selectHeaderJarsForSdkVersion levels
       \<lparr>scopePathsMap = Some [apiScopePublic \<mapsto> noPaths], RootLibraryName = ''foo''\<rparr>
       fooContext \<lparr>Kind = SdkPublic, ApiLevel = (''30'', 30, False), Raw = ''30''\<rparr> =
     ([], PropertyErrorf fooContext ''sdk_library''
            ''invalid sdk version %q, %q does not exist''
            [ArgString ''30'', ArgString ''prebuilts/sdk/30/public/foo.jar''])"
proof -
  let ?s = "\<lparr>Kind = SdkPublic, ApiLevel = (''30'', 30, False), Raw = ''30''\<rparr> :: level SdkSpec"
  let ?c = "\<lparr>scopePathsMap = Some [apiScopePublic \<mapsto> noPaths], RootLibraryName = ''foo''\<rparr>"
  have numbered: "\<not> IsPreview levels (ApiLevel ?s)"
    and use: "UsePrebuilt levels ?s"
    by (simp_all add: levels_def)
  have ver: "(''30'', 30, False) = (if UsePrebuilt levels ?s then ApiLevel ?s else FutureApiLevel levels)"
    and knd: "SdkPublic = (if UsePrebuilt levels ?s then Kind ?s else SdkSystem)"
    by (simp_all add: levels_def)
  have plain: "plain (ApiLevel_String levels (''30'', 30, False))"
    "plain (SdkKind_String levels SdkPublic)"
    "RootLibraryName ?c \<noteq> []" "CHR ''/'' \<notin> set (RootLibraryName ?c)"
    by (simp_all add: levels_def plain_def)
  have jar: "''prebuilts/sdk/30/public/foo.jar'' =
      ''prebuilts/sdk/'' @ ApiLevel_String levels (''30'', 30, False) @ ''/'' @
      SdkKind_String levels SdkPublic @ ''/'' @ RootLibraryName ?c @ ''.jar''"
    by (simp add: levels_def)
  have absent: "''prebuilts/sdk/30/public/foo.jar'' \<notin> set (sourceFiles fooContext)"
    and strict: "\<not> AllowMissingDependencies fooContext"
    by (simp_all add: fooContext_def)
  from numbered_version_resolution [OF numbered ver knd plain jar, of None fooContext]
    absent strict
  have "selectHeaderJarsForSdkVersion levels ?c fooContext ?s =
     ([], PropertyErrorf fooContext ''sdk_library''
            ''invalid sdk version %q, %q does not exist''
            [ArgString ''30'', ArgString ''prebuilts/sdk/30/public/foo.jar''])"
    by simp
  with numbered use plain(1,2) absent strict show ?thesis
    by (intro conjI)
qed

text \<open>
  With missing dependencies allowed and the jar absent, the result is the path of the
  requested version and kind itself: it is not under \<^verbatim>\<open>prebuilts/<version>\<close>, and it is not
  the path of the default pair of \<^verbatim>\<open>FutureApiLevel\<close> and the system kind.
\<close>

theorem absent_prebuilt_counterexample:
  "\<not> IsPreview levels (ApiLevel \<lparr>Kind = SdkPublic, ApiLevel = (''30'', 30, False), Raw = ''30''\<rparr>) \<and>
   AllowMissingDependencies (fooContext\<lparr>AllowMissingDependencies := True\<rparr>) \<and>
   ''prebuilts/sdk/30/public/foo.jar'' \<notin> set (sourceFiles (fooContext\<lparr>AllowMissingDependencies := True\<rparr>)) \<and>
   selectHeaderJarsForSdkVersion levels
       \<lparr>scopePathsMap = Some [apiScopePublic \<mapsto> noPaths], RootLibraryName = ''foo''\<rparr>
       (fooContext\<lparr>AllowMissingDependencies := True\<rparr>)
       \<lparr>Kind = SdkPublic, ApiLevel = (''30'', 30, False), Raw = ''30''\<rparr> =
     ([''prebuilts/sdk/30/public/foo.jar''], fooContext\<lparr>AllowMissingDependencies := True\<rparr>) \<and>
   ''prebuilts/sdk/30/public/foo.jar'' \<noteq> ''prebuilts/30/public/foo.jar'' \<and>
   ''prebuilts/sdk/30/public/foo.jar'' \<noteq>
     ''prebuilts/sdk/'' @ ApiLevel_String levels (FutureApiLevel levels) @ ''/'' @
     SdkKind_String levels SdkSystem @ ''/foo.jar''"
  by (simp add: selectHeaderJarsForSdkVersion_def PrebuiltJars_def levels_def fooContext_def
      path_Join_def Clean_def ExistentPathForSource_def)

section \<open>Missing api files: theorems\<close>

lemma apiFilesLoop_result:
  "apiFilesLoop apiDir scope apis (missing, mctx) =
     (let absent = filter (\<lambda>p. p \<notin> set (sourceFiles mctx))
                     (map (\<lambda>api. path_Join [ModuleDir mctx, apiDir, apiFilePrefix scope @ api]) apis)
      in if AllowMissingDependencies mctx
         then (missing, mctx\<lparr>missingDependencies := missingDependencies mctx @ absent\<rparr>)
         else (missing \<or> absent \<noteq> [],
               mctx\<lparr>errors := errors mctx @
                 map (\<lambda>p. ModuleError currentApiFileFormat [ArgString p]) absent\<rparr>))"
proof (induction apis arbitrary: missing mctx)
  case Nil
  show ?case by simp
next
  case (Cons api apis)
  show ?case
    by (simp add: Cons.IH Let_def ExistentPathForSource_def AddMissingDependencies_def
        ModuleErrorf_def currentApiFileFormat_def)
qed

lemma absentApiFiles_Cons:
  "absentApiFiles dir files apiDir (scope # scopes) =
     filter (\<lambda>p. p \<notin> set files)
       (map (\<lambda>api. path_Join [dir, apiDir, apiFilePrefix scope @ api])
          [''current.txt'', ''removed.txt'']) @
     absentApiFiles dir files apiDir scopes"
  by (simp add: absentApiFiles_def)

lemma scopesApiFilesLoop_result:
  "scopesApiFilesLoop apiDir scopes (missing, mctx) =
     (let absent = absentApiFiles (ModuleDir mctx) (sourceFiles mctx) apiDir scopes
      in if AllowMissingDependencies mctx
         then (missing, mctx\<lparr>missingDependencies := missingDependencies mctx @ absent\<rparr>)
         else (missing \<or> absent \<noteq> [],
               mctx\<lparr>errors := errors mctx @
                 map (\<lambda>p. ModuleError currentApiFileFormat [ArgString p]) absent\<rparr>))"
proof (induction scopes arbitrary: missing mctx)
  case Nil
  show ?case by (simp add: absentApiFiles_def)
next
  case (Cons scope scopes)
  show ?case
  proof (cases "AllowMissingDependencies mctx")
    case True
    then show ?thesis
      by (simp only: scopesApiFilesLoop.simps apiFilesLoop_result Let_def if_True Cons.IH
          absentApiFiles_Cons) simp
  next
    case False
    then show ?thesis
      by (simp only: scopesApiFilesLoop.simps apiFilesLoop_result Let_def if_False Cons.IH
          absentApiFiles_Cons) auto
  qed
qed

lemma absentApiFiles_member:
  "scope \<in> set scopes \<Longrightarrow> api \<in> {''current.txt'', ''removed.txt''} \<Longrightarrow>
   path_Join [dir, apiDir, apiFilePrefix scope @ api] \<notin> set files \<Longrightarrow>
   path_Join [dir, apiDir, apiFilePrefix scope @ api] \<in> set (absentApiFiles dir files apiDir scopes)"
  by (auto simp: absentApiFiles_def)

lemma getGeneratedApiScopes_fields:
  assumes "getGeneratedApiScopes m ctx = (generated, ctx1)"
  shows "ModuleDir ctx1 = ModuleDir ctx" "sourceFiles ctx1 = sourceFiles ctx"
    "AllowMissingDependencies ctx1 = AllowMissingDependencies ctx"
    "missingDependencies ctx1 = missingDependencies ctx"
proof -
  from assms getGeneratedApiScopes_context [of m ctx]
  have "ctx1 = ctx\<lparr>errors := errors ctx @ extendsReports generated allApiScopes\<rparr>"
    by simp
  then show "ModuleDir ctx1 = ModuleDir ctx" "sourceFiles ctx1 = sourceFiles ctx"
    "AllowMissingDependencies ctx1 = AllowMissingDependencies ctx"
    "missingDependencies ctx1 = missingDependencies ctx"
    by simp_all
qed

lemma CreateInternalModules_result:
  assumes enabled: "moduleEnabled module" and srcs: "Srcs module \<noteq> []"
    and module1: "module1 = module\<lparr>libraryProperties :=
                         (libraryProperties module)
                           \<lparr>Generate_system_and_test_apis := hasStandardLibs module\<rparr>\<rparr>"
    and generated: "getGeneratedApiScopes module1 mctx = (generatedScopes, mctx1)"
    and absent: "absent = absentApiFiles (ModuleDir mctx) (sourceFiles mctx) (getApiDir module)
                   generatedScopes"
  shows "CreateInternalModules module mctx =
     (if AllowMissingDependencies mctx then
        Inr (CreatesChildModules generatedScopes, module1,
             mctx1\<lparr>missingDependencies := missingDependencies mctx @ absent\<rparr>)
      else if absent = [] then Inr (CreatesChildModules generatedScopes, module1, mctx1)
      else if genApiFilesScript \<notin> set (sourceFiles mctx) then
        Inl (Panic (''script file '' @ genApiFilesScript @ '' doesn'' @ [CHR 0x27] @ ''t exist''))
      else
        Inr (NoChildModules, module1,
             mctx1\<lparr>errors := errors mctx1 @
                map (\<lambda>p. ModuleError currentApiFileFormat [ArgString p]) absent @
                [ModuleError missingApiFilesFormat
                   [ArgString genApiFilesScript,
                    ArgString (path_Join [ModuleDir mctx, getApiDir module]),
                    ArgString (strings_Join (map apiFilePrefix generatedScopes) '' '')]]\<rparr>))"
proof -
  note fields = getGeneratedApiScopes_fields [OF generated]
  have apiDir: "getApiDir module1 = getApiDir module"
    by (simp add: module1 getApiDir_def)
  have loop: "scopesApiFilesLoop (getApiDir module) generatedScopes (False, mctx1) =
     (if AllowMissingDependencies mctx
      then (False, mctx1\<lparr>missingDependencies := missingDependencies mctx @ absent\<rparr>)
      else (absent \<noteq> [],
            mctx1\<lparr>errors := errors mctx1 @
              map (\<lambda>p. ModuleError currentApiFileFormat [ArgString p]) absent\<rparr>))"
    by (simp add: scopesApiFilesLoop_result Let_def fields absent)
  have unfolded: "CreateInternalModules module mctx =
     (case scopesApiFilesLoop (getApiDir module1) generatedScopes (False, mctx1) of
        (missingCurrentApi, mctx2) \<Rightarrow>
          if missingCurrentApi then
              (case ExistentPathForSource mctx2 genApiFilesScript of
                 None \<Rightarrow>
                   Inl (Panic (''script file '' @ genApiFilesScript @ '' doesn'' @ [CHR 0x27] @
                               ''t exist''))
               | Some p \<Rightarrow>
                   Inr (NoChildModules, module1,
                        ModuleErrorf mctx2 missingApiFilesFormat
                          [ArgString genApiFilesScript,
                           ArgString (path_Join [ModuleDir mctx2, getApiDir module1]),
                           ArgString (strings_Join (map apiFilePrefix generatedScopes) '' '')]))
            else Inr (CreatesChildModules generatedScopes, module1, mctx2))"
    using enabled srcs generated
    by (simp add: CreateInternalModules_def Let_def module1 [symmetric])
  show ?thesis
    unfolding unfolded apiDir loop
    by (simp add: ExistentPathForSource_def ModuleErrorf_def fields)
qed

text \<open>
  Claim C6, as the code has it.  Let the module be enabled and have sources, and let the
  \<^verbatim>\<open>current.txt\<close> or \<^verbatim>\<open>removed.txt\<close> of a generated scope be absent from the source tree.
  If missing dependencies are not allowed and the script that generates the api files
  exists, \<^verbatim>\<open>CreateInternalModules\<close> returns before it creates any child module, with a module
  error that names the absent file and a module error that names the script, the api
  directory and the prefixes of the generated scopes; if the script does not exist it
  panics.  If missing dependencies are allowed, the absent file is recorded as a missing
  dependency, no error is added and the child modules are created.  None of this looks at
  \<^verbatim>\<open>unsafe_ignore_missing_latest_api\<close>.
\<close>

theorem missing_api_files:
  assumes "moduleEnabled module" and "Srcs module \<noteq> []"
    and "module1 = module\<lparr>libraryProperties :=
                         (libraryProperties module)
                           \<lparr>Generate_system_and_test_apis := hasStandardLibs module\<rparr>\<rparr>"
    and "getGeneratedApiScopes module1 mctx = (generatedScopes, mctx1)"
    and "scope \<in> set generatedScopes" and "api \<in> {''current.txt'', ''removed.txt''}"
    and "path = path_Join [ModuleDir mctx, getApiDir module, apiFilePrefix scope @ api]"
    and "path \<notin> set (sourceFiles mctx)"
  shows "(\<not> AllowMissingDependencies mctx \<and> genApiFilesScript \<in> set (sourceFiles mctx) \<longrightarrow>
            (\<exists>mctx'. CreateInternalModules module mctx = Inr (NoChildModules, module1, mctx') \<and>
               ModuleError currentApiFileFormat [ArgString path] \<in> set (errors mctx') \<and>
               ModuleError missingApiFilesFormat
                 [ArgString genApiFilesScript,
                  ArgString (path_Join [ModuleDir mctx, getApiDir module]),
                  ArgString (strings_Join (map apiFilePrefix generatedScopes) '' '')]
                 \<in> set (errors mctx'))) \<and>
         (\<not> AllowMissingDependencies mctx \<and> genApiFilesScript \<notin> set (sourceFiles mctx) \<longrightarrow>
            (\<exists>p. CreateInternalModules module mctx = Inl p)) \<and>
         (AllowMissingDependencies mctx \<longrightarrow>
            (\<exists>mctx'. CreateInternalModules module mctx =
                       Inr (CreatesChildModules generatedScopes, module1, mctx') \<and>
               path \<in> set (missingDependencies mctx') \<and>
               errors mctx' = errors mctx1))"
proof -
  define absent where
    "absent = absentApiFiles (ModuleDir mctx) (sourceFiles mctx) (getApiDir module) generatedScopes"
  note result = CreateInternalModules_result [OF assms(1-4) absent_def]
  from assms(5,6,8) have member: "path \<in> set absent"
    unfolding absent_def assms(7) by (rule absentApiFiles_member)
  then have nonempty: "absent \<noteq> []"
    by auto
  have strict: "\<exists>mctx'. CreateInternalModules module mctx = Inr (NoChildModules, module1, mctx') \<and>
               ModuleError currentApiFileFormat [ArgString path] \<in> set (errors mctx') \<and>
               ModuleError missingApiFilesFormat
                 [ArgString genApiFilesScript,
                  ArgString (path_Join [ModuleDir mctx, getApiDir module]),
                  ArgString (strings_Join (map apiFilePrefix generatedScopes) '' '')]
                 \<in> set (errors mctx')"
    if "\<not> AllowMissingDependencies mctx" "genApiFilesScript \<in> set (sourceFiles mctx)"
    using that nonempty member by (simp add: result)
  have panics: "\<exists>p. CreateInternalModules module mctx = Inl p"
    if "\<not> AllowMissingDependencies mctx" "genApiFilesScript \<notin> set (sourceFiles mctx)"
    using that nonempty by (simp add: result)
  have tolerant: "\<exists>mctx'. CreateInternalModules module mctx =
                       Inr (CreatesChildModules generatedScopes, module1, mctx') \<and>
               path \<in> set (missingDependencies mctx') \<and>
               errors mctx' = errors mctx1"
    if "AllowMissingDependencies mctx"
    using that member by (simp add: result)
  from strict panics tolerant show ?thesis
    by blast
qed

text \<open>
  Where \<^verbatim>\<open>unsafe_ignore_missing_latest_api\<close> does count: with it, \<^verbatim>\<open>DepsMutator\<close> reports
  nothing about the modules of the latest released api.
\<close>

lemma DepsMutator_opt_out:
  "Unsafe_ignore_missing_latest_api (libraryProperties module) \<Longrightarrow>
   DepsMutator module ctx = snd (getGeneratedApiScopes module ctx)"
  by (simp add: DepsMutator_def Let_def case_prod_beta)

text \<open>The library \<^verbatim>\<open>foo\<close> without api files, missing dependencies not allowed.\<close>

theorem missing_api_files_witness:
  "moduleEnabled fooLibrary \<and> Srcs fooLibrary \<noteq> [] \<and>
   getGeneratedApiScopes
     (fooLibrary\<lparr>libraryProperties := (libraryProperties fooLibrary)
        \<lparr>Generate_system_and_test_apis := hasStandardLibs fooLibrary\<rparr>\<rparr>) fooContext =
     ([apiScopePublic], fooContext) \<and>
   ''frameworks/foo/api/current.txt'' =
     path_Join [ModuleDir fooContext, getApiDir fooLibrary, apiFilePrefix apiScopePublic @ ''current.txt''] \<and>
   ''frameworks/foo/api/current.txt'' \<notin> set (sourceFiles fooContext) \<and>
   \<not> AllowMissingDependencies fooContext \<and>
   genApiFilesScript \<in> set (sourceFiles fooContext) \<and>
   (\<exists>mctx'. CreateInternalModules fooLibrary fooContext =
        Inr (NoChildModules,
             fooLibrary\<lparr>libraryProperties := (libraryProperties fooLibrary)
               \<lparr>Generate_system_and_test_apis := hasStandardLibs fooLibrary\<rparr>\<rparr>, mctx') \<and>
      ModuleError currentApiFileFormat [ArgString ''frameworks/foo/api/current.txt'']
        \<in> set (errors mctx') \<and>
      ModuleError missingApiFilesFormat
        [ArgString genApiFilesScript,
         ArgString (path_Join [ModuleDir fooContext, getApiDir fooLibrary]),
         ArgString (strings_Join (map apiFilePrefix [apiScopePublic]) '' '')]
        \<in> set (errors mctx'))"
proof -
  let ?module1 = "fooLibrary\<lparr>libraryProperties := (libraryProperties fooLibrary)
        \<lparr>Generate_system_and_test_apis := hasStandardLibs fooLibrary\<rparr>\<rparr>"
  have enabled: "moduleEnabled fooLibrary" and srcs: "Srcs fooLibrary \<noteq> []"
    by code_simp+
  have generated: "getGeneratedApiScopes ?module1 fooContext = ([apiScopePublic], fooContext)"
    by code_simp
  have scope: "apiScopePublic \<in> set [apiScopePublic]"
    and api: "''current.txt'' \<in> {''current.txt'', ''removed.txt''}"
    by simp_all
  have path: "''frameworks/foo/api/current.txt'' =
     path_Join [ModuleDir fooContext, getApiDir fooLibrary, apiFilePrefix apiScopePublic @ ''current.txt'']"
    by code_simp
  have absent: "''frameworks/foo/api/current.txt'' \<notin> set (sourceFiles fooContext)"
    and strict: "\<not> AllowMissingDependencies fooContext"
    and script: "genApiFilesScript \<in> set (sourceFiles fooContext)"
    by code_simp+
  from missing_api_files [OF enabled srcs refl generated scope api path absent] strict script
  have "\<exists>mctx'. CreateInternalModules fooLibrary fooContext = Inr (NoChildModules, ?module1, mctx') \<and>
      ModuleError currentApiFileFormat [ArgString ''frameworks/foo/api/current.txt'']
        \<in> set (errors mctx') \<and>
      ModuleError missingApiFilesFormat
        [ArgString genApiFilesScript,
         ArgString (path_Join [ModuleDir fooContext, getApiDir fooLibrary]),
         ArgString (strings_Join (map apiFilePrefix [apiScopePublic]) '' '')]
        \<in> set (errors mctx')"
    by blast
  with enabled srcs generated path absent strict script show ?thesis
    by (intro conjI)
qed

text \<open>
  The same library, which has not set \<^verbatim>\<open>unsafe_ignore_missing_latest_api\<close>, when missing
  dependencies are allowed: both api files are absent, no error is reported and the child
  modules of the public scope are created.
\<close>

theorem tolerated_missing_api_files_counterexample:
  "moduleEnabled fooLibrary \<and> Srcs fooLibrary \<noteq> [] \<and>
   \<not> Unsafe_ignore_missing_latest_api (libraryProperties fooLibrary) \<and>
   fst (getGeneratedApiScopes
     (fooLibrary\<lparr>libraryProperties := (libraryProperties fooLibrary)
        \<lparr>Generate_system_and_test_apis := hasStandardLibs fooLibrary\<rparr>\<rparr>)
     (fooContext\<lparr>AllowMissingDependencies := True\<rparr>)) = [apiScopePublic] \<and>
   ''frameworks/foo/api/current.txt'' \<notin>
     set (sourceFiles (fooContext\<lparr>AllowMissingDependencies := True\<rparr>)) \<and>
   ''frameworks/foo/api/removed.txt'' \<notin>
     set (sourceFiles (fooContext\<lparr>AllowMissingDependencies := True\<rparr>)) \<and>
   CreateInternalModules fooLibrary (fooContext\<lparr>AllowMissingDependencies := True\<rparr>) =
     Inr (CreatesChildModules [apiScopePublic],
          fooLibrary\<lparr>libraryProperties := (libraryProperties fooLibrary)
            \<lparr>Generate_system_and_test_apis := hasStandardLibs fooLibrary\<rparr>\<rparr>,
          fooContext\<lparr>AllowMissingDependencies := True,
            missingDependencies :=
              [''frameworks/foo/api/current.txt'', ''frameworks/foo/api/removed.txt'']\<rparr>) \<and>
   errors (fooContext\<lparr>AllowMissingDependencies := True,
            missingDependencies :=
              [''frameworks/foo/api/current.txt'', ''frameworks/foo/api/removed.txt'']\<rparr>) = []"
  by code_simp

end
